theory Spec2Isabelle
  imports Main
begin

section \<open>Python text\<close>

text \<open>
  A Python \<open>str\<close> is a sequence of Unicode code points; it is modelled as a list of
  natural numbers, one per code point. \<open>str\<close> turns an ASCII literal into such a list.
\<close>

type_synonym pystr = "nat list"

definition str :: "string \<Rightarrow> pystr" where
  "str s = map of_char s"

text \<open>\<open>str.isspace\<close> on one character: the code points CPython lists as whitespace.\<close>

definition isspace :: "nat \<Rightarrow> bool" where
  "isspace c \<longleftrightarrow>
     (9 \<le> c \<and> c \<le> 13) \<or> (28 \<le> c \<and> c \<le> 32) \<or> c = 133 \<or> c = 160 \<or> c = 5760 \<or>
     (8192 \<le> c \<and> c \<le> 8202) \<or> c = 8232 \<or> c = 8233 \<or> c = 8239 \<or> c = 8287 \<or> c = 12288"

text \<open>\<open>s.strip()\<close>: whitespace removed at both ends.\<close>

definition strip :: "pystr \<Rightarrow> pystr" where
  "strip s = rev (dropWhile isspace (rev (dropWhile isspace s)))"

text \<open>\<open>s.endswith(t)\<close>.\<close>

definition endswith :: "pystr \<Rightarrow> pystr \<Rightarrow> bool" where
  "endswith s t \<longleftrightarrow> length t \<le> length s \<and> drop (length s - length t) s = t"

text \<open>
  \<open>s.lower()\<close>. ASCII capitals are lowered; U+0130 and U+212A are the two characters
  outside ASCII whose lowercase form contains an ASCII letter. Every other character is
  kept: Python lowers further letters outside ASCII, to letters outside ASCII, so the
  result equals a given ASCII text here exactly when it does in Python.
\<close>

definition lower_char :: "nat \<Rightarrow> pystr" where
  "lower_char c =
     (if 65 \<le> c \<and> c \<le> 90 then [c + 32]
      else if c = 304 then [105, 775]
      else if c = 8490 then [107]
      else [c])"

definition lower :: "pystr \<Rightarrow> pystr" where
  "lower s = concat (map lower_char s)"

text \<open>\<open>s.rfind(c)\<close> for a one-character \<open>c\<close>: the last index of \<open>c\<close>, or \<open>-1\<close>.\<close>

fun rfind_from :: "nat \<Rightarrow> pystr \<Rightarrow> nat \<Rightarrow> int \<Rightarrow> int" where
  "rfind_from c [] i r = r"
| "rfind_from c (x # xs) i r = rfind_from c xs (Suc i) (if x = c then int i else r)"

definition rfind :: "nat \<Rightarrow> pystr \<Rightarrow> int" where
  "rfind c s = rfind_from c s 0 (- 1)"

text \<open>
  \<open>os.path.splitext\<close> (POSIX): the extension starts at the last dot of the last path
  component, unless only dots precede it there. 47 is the slash, 46 the dot.
\<close>

definition splitext :: "pystr \<Rightarrow> pystr \<times> pystr" where
  "splitext p =
     (let sepIndex = rfind 47 p; dotIndex = rfind 46 p
      in if dotIndex > sepIndex
            \<and> list_ex (\<lambda>c. c \<noteq> 46)
                 (take (nat (dotIndex - (sepIndex + 1))) (drop (nat (sepIndex + 1)) p))
         then (take (nat dotIndex) p, drop (nat dotIndex) p)
         else (p, []))"

text \<open>\<open>os.path.basename\<close> (POSIX).\<close>

definition basename :: "pystr \<Rightarrow> pystr" where
  "basename p = drop (nat (rfind 47 p + 1)) p"

text \<open>\<open>s.replace(old, new)\<close>: every occurrence, left to right, without overlap.\<close>

function replace :: "pystr \<Rightarrow> pystr \<Rightarrow> pystr \<Rightarrow> pystr" where
  "replace old new s =
     (if old = [] then new @ concat (map (\<lambda>c. c # new) s)
      else if s = [] then []
      else if take (length old) s = old then new @ replace old new (drop (length old) s)
      else hd s # replace old new (tl s))"
  by pat_completeness auto
termination
  by (relation "measure (\<lambda>(old, new, s). length s)") auto

declare replace.simps [simp del]

text \<open>\<open>str(n)\<close> for an integer, as an f-string prints it.\<close>

function nat_digits :: "nat \<Rightarrow> pystr" where
  "nat_digits n = (if n < 10 then [48 + n] else nat_digits (n div 10) @ [48 + n mod 10])"
  by pat_completeness auto
termination
  by (relation "measure id") auto

declare nat_digits.simps [simp del]

definition str_of_int :: "int \<Rightarrow> pystr" where
  "str_of_int i = (if i < 0 then 45 # nat_digits (nat (- i)) else nat_digits (nat i))"

text \<open>\<open>sep.join(xs)\<close>.\<close>

fun join :: "pystr \<Rightarrow> pystr list \<Rightarrow> pystr" where
  "join sep [] = []"
| "join sep [x] = x"
| "join sep (x # y # ys) = x @ sep @ join sep (y # ys)"

section \<open>Errors\<close>

text \<open>
  The exceptions that can leave \<open>execute_code\<close> or be caught in it, each with its
  message (\<open>UnicodeEncodeError\<close> with its reason only). \<open>ContainerError\<close> is
  \<open>docker.errors.ContainerError\<close>; \<open>DockerException\<close> stands for every other exception
  of the container client.
\<close>

datatype exc =
    ValueError pystr
  | IndexError pystr
  | UnicodeEncodeError pystr
  | OSError pystr
  | TimeoutError pystr
  | RecursionError pystr
  | AttributeError pystr
  | ContainerError pystr
  | DockerException pystr

text \<open>\<open>str(exc)\<close>.\<close>

fun exc_str :: "exc \<Rightarrow> pystr" where
  "exc_str (ValueError m) = m"
| "exc_str (IndexError m) = m"
| "exc_str (UnicodeEncodeError m) = m"
| "exc_str (OSError m) = m"
| "exc_str (TimeoutError m) = m"
| "exc_str (RecursionError m) = m"
| "exc_str (AttributeError m) = m"
| "exc_str (ContainerError m) = m"
| "exc_str (DockerException m) = m"

text \<open>
  \<open>s.encode('utf-8')\<close>: a surrogate code point has no UTF-8 form and raises.
\<close>

definition utf8_char :: "nat \<Rightarrow> nat list option" where
  "utf8_char c =
     (if c < 128 then Some [c]
      else if c < 2048 then Some [192 + c div 64, 128 + c mod 64]
      else if 55296 \<le> c \<and> c \<le> 57343 then None
      else if c < 65536 then Some [224 + c div 4096, 128 + (c div 64) mod 64, 128 + c mod 64]
      else Some [240 + c div 262144, 128 + (c div 4096) mod 64, 128 + (c div 64) mod 64,
                 128 + c mod 64])"

fun utf8_encode :: "pystr \<Rightarrow> exc + nat list" where
  "utf8_encode [] = Inr []"
| "utf8_encode (c # cs) =
     (case utf8_char c of
        None \<Rightarrow> Inl (UnicodeEncodeError (str ''surrogates not allowed''))
      | Some bs \<Rightarrow> (case utf8_encode cs of Inl e \<Rightarrow> Inl e | Inr rest \<Rightarrow> Inr (bs @ rest)))"

text \<open>
  \<open>print(s)\<close>. The first thing the source prints is an emoji, so where a later print is
  reached the standard output has an encoding that covers every code point but the
  surrogates: the print raises exactly when the text has no UTF-8 form.
\<close>

definition print_text :: "pystr \<Rightarrow> exc option" where
  "print_text s = (case utf8_encode s of Inl e \<Rightarrow> Some e | Inr bs \<Rightarrow> None)"

text \<open>\<open>base64.b64encode(bs).decode('ascii')\<close>.\<close>

definition b64_char :: "nat \<Rightarrow> nat" where
  "b64_char n =
     (if n < 26 then 65 + n else if n < 52 then 97 + (n - 26) else if n < 62 then 48 + (n - 52)
      else if n = 62 then 43 else 47)"

fun b64encode :: "nat list \<Rightarrow> pystr" where
  "b64encode [] = []"
| "b64encode [a] = [b64_char (a div 4), b64_char ((a mod 4) * 16), 61, 61]"
| "b64encode [a, b] =
     [b64_char (a div 4), b64_char ((a mod 4) * 16 + b div 16), b64_char ((b mod 16) * 4), 61]"
| "b64encode (a # b # c # rest) =
     [b64_char (a div 4), b64_char ((a mod 4) * 16 + b div 16),
      b64_char ((b mod 16) * 4 + c div 64), b64_char (c mod 64)] @ b64encode rest"

section \<open>Data model\<close>

text \<open>An entry of \<open>LANGUAGE_CONFIG\<close>.\<close>

record language_config =
  image :: pystr
  main_file :: pystr
  setup_command :: "pystr option"

definition LANGUAGE_CONFIG :: "(pystr \<times> language_config) list" where
  "LANGUAGE_CONFIG =
     [(str ''python'',
         \<lparr>image = str ''python:3.12-slim'', main_file = str ''main.py'', setup_command = None\<rparr>),
      (str ''typescript'',
         \<lparr>image = str ''node:20-slim'', main_file = str ''main.ts'',
          setup_command = Some (str ''npm install -g typescript ts-node'')\<rparr>),
      (str ''go'',
         \<lparr>image = str ''golang:1.23-alpine'', main_file = str ''main.go'', setup_command = None\<rparr>),
      (str ''java'',
         \<lparr>image = str ''openjdk:21-jdk-slim'', main_file = str ''Main.java'',
          setup_command = None\<rparr>)]"

text \<open>A test case: the \<open>input\<close> and \<open>output\<close> entries of the dictionary (or attributes).\<close>

record test_case =
  tc_input :: pystr
  tc_output :: pystr

text \<open>
  The arguments of \<open>execute_code\<close>. \<open>files\<close> is the dictionary in insertion order;
  \<open>test_cases\<close> may be \<open>None\<close>.
\<close>

record request =
  language :: pystr
  files :: "(pystr \<times> pystr) list"
  timeout :: int
  test_cases :: "test_case list option"

text \<open>An element of \<open>test_results\<close>.\<close>

record test_result =
  test_index :: int
  tr_input :: pystr
  expected_output :: pystr
  actual_output :: pystr
  passed :: bool
  tr_exit_code :: int
  tr_duration_ms :: int

text \<open>The dictionary \<open>execute_code\<close> returns.\<close>

record execution_result =
  stdout :: pystr
  stderr :: pystr
  exit_code :: int
  duration_ms :: int
  test_results :: "test_result list option"
  verdict :: "pystr option"

definition ACCEPTED :: pystr where
  "ACCEPTED = str ''ACCEPTED''"

definition WRONG_ANSWER :: pystr where
  "WRONG_ANSWER = str ''WRONG ANSWER''"

section \<open>The world outside the engine\<close>

text \<open>
  What awaiting one command inside the running container gives: the exit code with the
  decoded stdout and stderr; the deadline of \<open>asyncio.wait_for\<close> passing while
  \<open>container.exec_run\<close> is at work (\<open>TimedOut\<close>: the command goes on in the container);
  the deadline passing before a worker thread has called \<open>container.exec_run\<close> at all
  (\<open>NotStarted\<close>: no thread was free because earlier runs have not come back); or an
  exception of the container client.
\<close>

datatype exec_outcome = Returned int pystr pystr | TimedOut | NotStarted | Raised exc

text \<open>
  What \<open>shutil.rmtree(tmpdir, ignore_errors=True)\<close> does: it removes the directory; or
  it fails on an error of the operating system, which it ignores, and the directory
  stays; or it raises something else (a \<open>RecursionError\<close> on a deeply nested tree) and
  the directory stays.
\<close>

datatype removal = Removed | Kept | RemovalRaised exc

text \<open>
  The file system and the container daemon answer the engine's calls; the engine does
  not decide the answers. An \<open>env\<close> fixes them for one request: \<open>None\<close> is a call
  that succeeds, \<open>Some e\<close> one that raises \<open>e\<close>. \<open>write_file\<close> is the directory
  creation and the write of one file with the two prints around it, \<open>put_archive\<close> the
  building and the transfer of the archive, \<open>container_logs\<close> the two \<open>logs\<close> calls,
  \<open>reload\<close> and the exit code of the state (\<open>None\<close> when it is absent), \<open>exec_run\<close>
  what awaiting the k-th command gives under a positive deadline, \<open>rmtree\<close> the removal
  of the workspace directory. The clock readings are the elapsed times the engine
  computes.
\<close>

record env =
  makedirs_base :: "exc option"
  makedirs_tmpdir :: "exc option"
  write_file :: "pystr \<Rightarrow> pystr \<Rightarrow> exc option"
  containers_create :: "exc option"
  put_archive :: "exc option"
  container_start :: "exc option"
  container_wait :: "exc option"
  container_stop :: "exc option"
  container_logs :: "exc + (pystr \<times> pystr \<times> int option)"
  container_remove :: "exc option"
  exec_run :: "nat \<Rightarrow> pystr \<Rightarrow> exec_outcome"
  rmtree :: removal
  elapsed_ms :: int
  test_elapsed_ms :: "nat \<Rightarrow> int"

text \<open>
  What the engine did to the outside, in order. \<open>ExecRun\<close> is a call of
  \<open>container.exec_run\<close> made while the engine awaited the command; \<open>RmTree\<close> is the call
  of \<open>shutil.rmtree\<close>, whatever it achieved.
\<close>

datatype event =
    MakeDirs
  | WriteFile pystr pystr
  | ContainerCreate pystr pystr bool
  | PutArchive
  | ContainerStart
  | ContainerStop
  | ExecRun pystr int
  | ContainerRemove
  | RmTree

text \<open>
  The state the engine changes: whether the request's workspace directory exists, and
  the effects so far.
\<close>

record world =
  tmpdir_exists :: bool
  trace :: "event list"

definition log :: "event \<Rightarrow> world \<Rightarrow> world" where
  "log e w = w\<lparr>trace := trace w @ [e]\<rparr>"

section \<open>Language resolution\<close>

text \<open>\<open>_detect_language_from_file\<close>: the language of a file's extension, if any.\<close>

definition ext_map :: "(pystr \<times> pystr) list" where
  "ext_map =
     [(str ''.py'', str ''python''), (str ''.ts'', str ''typescript''),
      (str ''.js'', str ''typescript''), (str ''.go'', str ''go''), (str ''.java'', str ''java'')]"

definition detect_language_from_file :: "pystr \<Rightarrow> pystr option" where
  "detect_language_from_file filepath = map_of ext_map (lower (snd (splitext filepath)))"

text \<open>
  The first loop of \<open>execute_code\<close> over \<open>files.keys()\<close>: the first path whose detected
  language is truthy gives \<open>detected_language\<close> and \<open>main_file_path\<close>.
\<close>

fun first_detected :: "pystr list \<Rightarrow> (pystr \<times> pystr) option" where
  "first_detected [] = None"
| "first_detected (filepath # rest) =
     (case detect_language_from_file filepath of
        None \<Rightarrow> first_detected rest
      | Some file_lang \<Rightarrow>
          if file_lang \<noteq> [] then Some (file_lang, filepath) else first_detected rest)"

text \<open>The second table of extensions, from the language to the extension of its main file.\<close>

definition main_ext_map :: "(pystr \<times> pystr) list" where
  "main_ext_map =
     [(str ''python'', str ''.py''), (str ''typescript'', str ''.ts''), (str ''go'', str ''.go''),
      (str ''java'', str ''.java'')]"

text \<open>
  The resolution block of \<open>execute_code\<close> (from the first loop to the registry check):
  the effective language, the main file and the language's configuration, or the
  exception raised on the way. \<open>list(files.keys())[0]\<close> raises on an empty dictionary;
  the two prints before the registry check raise on a text that cannot be printed.
  128269 and 128196 are the emoji the two lines start with.
\<close>

definition resolve_language ::
  "(pystr \<times> pystr) list \<Rightarrow> pystr \<Rightarrow> exc + (pystr \<times> pystr \<times> language_config)" where
  "resolve_language fs declared =
     (let keys = map fst fs;
          found = first_detected keys;
          detected_language =
            (case found of None \<Rightarrow> declared
             | Some (l, _) \<Rightarrow> if l = [] then declared else l);
          main1 =
            (case found of
               Some (_, m) \<Rightarrow> if m = [] then None else Some m
             | None \<Rightarrow> None);
          main2 =
            (case main1 of
               Some m \<Rightarrow> Some m
             | None \<Rightarrow>
                 (let target_ext =
                        (case map_of main_ext_map detected_language of
                           None \<Rightarrow> str ''.py'' | Some e \<Rightarrow> e)
                  in find (\<lambda>filepath. endswith filepath target_ext) keys));
          main3 =
            (case main2 of
               Some m \<Rightarrow> if m = [] then None else Some m
             | None \<Rightarrow> None)
      in case (case main3 of
                 Some m \<Rightarrow> Inr m
               | None \<Rightarrow>
                   (case keys of
                      [] \<Rightarrow> Inl (IndexError (str ''list index out of range''))
                    | k # _ \<Rightarrow> Inr k)) of
           Inl e \<Rightarrow> Inl e
         | Inr main_file_path \<Rightarrow>
             (case print_text ([128269] @ str '' Detected language: '' @ detected_language) of
                Some e \<Rightarrow> Inl e
              | None \<Rightarrow>
             (case print_text ([128196] @ str '' Main file path: '' @ main_file_path) of
                Some e \<Rightarrow> Inl e
              | None \<Rightarrow>
             (case map_of LANGUAGE_CONFIG detected_language of
                None \<Rightarrow> Inl (ValueError (str ''Unsupported language: '' @ detected_language))
              | Some config \<Rightarrow> Inr (detected_language, main_file_path, config)))))"

section \<open>Commands\<close>

text \<open>The command of single-run mode. 34 is the double quote.\<close>

definition run_command :: "pystr \<Rightarrow> pystr \<Rightarrow> pystr" where
  "run_command lang main_file_path =
     (if lang = str ''typescript'' then
        str ''/bin/sh -c '' @ [34]
        @ str ''cd /workspace && npx -y tsc --target ES2020 --module commonjs --esModuleInterop --skipLibCheck *.ts 2>&1 && node ''
        @ replace (str ''.ts'') (str ''.js'') main_file_path @ [34]
      else if lang = str ''java'' then
        str ''/bin/sh -c '' @ [34] @ str ''cd /workspace && javac '' @ main_file_path
        @ str '' && java '' @ fst (splitext (basename main_file_path)) @ [34]
      else if lang = str ''go'' then str ''go run /workspace/'' @ main_file_path
      else str ''python /workspace/'' @ main_file_path)"

text \<open>The one-time build command of batch mode; Python has none.\<close>

definition compile_command :: "pystr \<Rightarrow> pystr \<Rightarrow> pystr option" where
  "compile_command lang main_file_path =
     (if lang = str ''typescript'' then
        Some (str ''/bin/sh -lc '' @ [34]
          @ str ''cd /workspace && npx -y tsc --target ES2020 --module commonjs --esModuleInterop --skipLibCheck *.ts''
          @ [34])
      else if lang = str ''java'' then
        Some (str ''/bin/sh -lc '' @ [34] @ str ''cd /workspace && javac '' @ main_file_path @ [34])
      else if lang = str ''go'' then
        Some (str ''/bin/sh -lc '' @ [34] @ str ''cd /workspace && go build -o main_bin ''
          @ main_file_path @ [34])
      else None)"

text \<open>The command that runs the program once, reused for every test.\<close>

definition runner_command :: "pystr \<Rightarrow> pystr \<Rightarrow> pystr" where
  "runner_command lang main_file_path =
     (if lang = str ''typescript'' then
        str ''node '' @ replace (str ''.ts'') (str ''.js'') main_file_path
      else if lang = str ''java'' then str ''java '' @ fst (splitext (basename main_file_path))
      else if lang = str ''go'' then str ''./main_bin''
      else str ''python '' @ main_file_path)"

text \<open>The command of one test: the input travels as base64.\<close>

definition test_command :: "pystr \<Rightarrow> pystr \<Rightarrow> pystr" where
  "test_command b64 runner =
     str ''/bin/sh -lc '' @ [34] @ str ''cd /workspace && echo '' @ b64
     @ str '' | base64 -d | '' @ runner @ [34]"

definition timeout_message :: "int \<Rightarrow> pystr" where
  "timeout_message t = str ''Execution timeout after '' @ str_of_int t @ str '' seconds''"

section \<open>The workspace\<close>

text \<open>The loop that writes the files; the first failing write raises.\<close>

fun write_files :: "env \<Rightarrow> (pystr \<times> pystr) list \<Rightarrow> world \<Rightarrow> exc option \<times> world" where
  "write_files en [] w = (None, w)"
| "write_files en ((filepath, content) # rest) w =
     (case write_file en filepath content of
        Some e \<Rightarrow> (Some e, w)
      | None \<Rightarrow> write_files en rest (log (WriteFile filepath content) w))"

section \<open>Single-run mode\<close>

text \<open>
  The body of the \<open>try\<close> of single-run mode: its result or the exception raised, and
  whether \<open>container\<close> was assigned. A failing \<open>wait\<close> stops the container and raises
  \<open>TimeoutError\<close>. On completion stderr is kept only for a non-zero exit code and a
  non-blank stream.
\<close>

definition single_try ::
  "env \<Rightarrow> language_config \<Rightarrow> bool \<Rightarrow> pystr \<Rightarrow> int \<Rightarrow> world
     \<Rightarrow> (exc + (pystr \<times> pystr \<times> int)) \<times> bool \<times> world" where
  "single_try en config use_network command t w =
     (case containers_create en of
        Some e \<Rightarrow> (Inl e, False, w)
      | None \<Rightarrow>
     let w1 = log (ContainerCreate (image config) command (\<not> use_network)) w in
     case put_archive en of
        Some e \<Rightarrow> (Inl e, True, w1)
      | None \<Rightarrow>
     let w2 = log PutArchive w1 in
     case container_start en of
        Some e \<Rightarrow> (Inl e, True, w2)
      | None \<Rightarrow>
     let w3 = log ContainerStart w2 in
     case container_wait en of
        Some wait_exc \<Rightarrow>
          (case container_stop en of
             Some e \<Rightarrow> (Inl e, True, w3)
           | None \<Rightarrow> (Inl (TimeoutError (timeout_message t)), True, log ContainerStop w3))
      | None \<Rightarrow>
     case container_logs en of
        Inl e \<Rightarrow> (Inl e, True, w3)
      | Inr (stdout_text, stderr_raw, state_exit) \<Rightarrow>
          (let code = (case state_exit of None \<Rightarrow> 0 | Some c \<Rightarrow> c)
           in (Inr (stdout_text,
                    if code \<noteq> 0 \<and> strip stderr_raw \<noteq> [] then stderr_raw else [],
                    code),
               True, w3)))"

text \<open>The \<open>finally\<close> of either mode: the container, if assigned, is removed; a failure is ignored.\<close>

definition finally_remove :: "env \<Rightarrow> bool \<Rightarrow> world \<Rightarrow> world" where
  "finally_remove en container w =
     (if container then
        (case container_remove en of None \<Rightarrow> log ContainerRemove w | Some e \<Rightarrow> w)
      else w)"

text \<open>
  The three handlers of single-run mode, in the order of the source. The handler of
  \<open>ContainerError\<close> starts by reading \<open>exc.stdout\<close>, an attribute that exception does not
  have: the handler itself raises \<open>AttributeError\<close>, which leaves the \<open>try\<close> statement.
\<close>

fun single_handlers :: "exc + (pystr \<times> pystr \<times> int) \<Rightarrow> exc + (pystr \<times> pystr \<times> int)" where
  "single_handlers (Inr res) = Inr res"
| "single_handlers (Inl (TimeoutError m)) = Inr ([], m, - 1)"
| "single_handlers (Inl (ContainerError m)) =
     Inl (AttributeError (str ''ContainerError object has no attribute stdout''))"
| "single_handlers (Inl e) = Inr ([], str ''Docker error: '' @ exc_str e, - 1)"

definition single_run ::
  "env \<Rightarrow> language_config \<Rightarrow> pystr \<Rightarrow> pystr \<Rightarrow> int \<Rightarrow> world
     \<Rightarrow> (exc + (pystr \<times> pystr \<times> int)) \<times> world" where
  "single_run en config lang command t w =
     (case single_try en config (lang = str ''typescript'') command t w of
        (r, container, w1) \<Rightarrow> (single_handlers r, finally_remove en container w1))"

section \<open>Batch test-suite mode\<close>

text \<open>
  What awaiting the k-th command gives. With a deadline of 0 or less
  \<open>asyncio.wait_for\<close> cancels the call before it starts, whatever the environment: the
  command is never run.
\<close>

definition run_outcome :: "env \<Rightarrow> nat \<Rightarrow> pystr \<Rightarrow> int \<Rightarrow> exec_outcome" where
  "run_outcome en k command t = (if t \<le> 0 then NotStarted else exec_run en k command)"

text \<open>
  \<open>_exec_in_container\<close>: the k-th command awaited. \<open>container.exec_run\<close> is called
  unless the deadline passed before a worker thread started on it.
\<close>

definition exec_in_container :: "env \<Rightarrow> nat \<Rightarrow> pystr \<Rightarrow> int \<Rightarrow> world \<Rightarrow> exec_outcome \<times> world" where
  "exec_in_container en k command t w =
     (case run_outcome en k command t of
        NotStarted \<Rightarrow> (NotStarted, w)
      | oc \<Rightarrow> (oc, log (ExecRun command t) w))"

text \<open>
  The build step: its result is not read. A deadline or an exception of the call is not
  caught here.
\<close>

definition compile_step :: "env \<Rightarrow> pystr \<Rightarrow> pystr \<Rightarrow> int \<Rightarrow> world \<Rightarrow> exc option \<times> world" where
  "compile_step en lang main_file_path t w =
     (case compile_command lang main_file_path of
        None \<Rightarrow> (None, w)
      | Some command \<Rightarrow>
          (case exec_in_container en 0 command t w of
             (Returned c out err, w1) \<Rightarrow> (None, w1)
           | (TimedOut, w1) \<Rightarrow> (Some (TimeoutError []), w1)
           | (NotStarted, w1) \<Rightarrow> (Some (TimeoutError []), w1)
           | (Raised e, w1) \<Rightarrow> (Some e, w1)))"

text \<open>The number of commands awaited before the first test.\<close>

definition first_test_call :: "pystr \<Rightarrow> pystr \<Rightarrow> nat" where
  "first_test_call lang main_file_path =
     (case compile_command lang main_file_path of None \<Rightarrow> 0 | Some c \<Rightarrow> 1)"

text \<open>The label put before a test's stderr: the Russian word for error, a colon, a space.\<close>

definition error_label :: pystr where
  "error_label = [1054, 1096, 1080, 1073, 1082, 1072, 58, 32]"

text \<open>
  What the two \<open>except\<close> clauses around a test's run leave in \<open>t_exit\<close>, \<open>t_out\<close> and
  \<open>t_err\<close>: the deadline of \<open>asyncio.wait_for\<close> and a \<open>TimeoutError\<close> raised by the call
  itself are both caught; any other exception goes on.
\<close>

fun test_outcome :: "int \<Rightarrow> exec_outcome \<Rightarrow> exc + (int \<times> pystr \<times> pystr)" where
  "test_outcome t (Returned c out err) = Inr (c, out, err)"
| "test_outcome t TimedOut = Inr (- 1, [], timeout_message t)"
| "test_outcome t NotStarted = Inr (- 1, [], timeout_message t)"
| "test_outcome t (Raised (TimeoutError m)) = Inr (- 1, [], timeout_message t)"
| "test_outcome t (Raised e) = Inl e"

text \<open>The result recorded for one test from \<open>t_exit\<close>, \<open>t_out\<close> and \<open>t_err\<close>.\<close>

definition make_test_result ::
  "nat \<Rightarrow> test_case \<Rightarrow> int \<Rightarrow> pystr \<Rightarrow> pystr \<Rightarrow> int \<Rightarrow> test_result" where
  "make_test_result test_idx tc t_exit t_out t_err dur =
     (let expected = strip (tc_output tc);
          actual = strip t_out
      in \<lparr>test_index = int test_idx + 1,
          tr_input = tc_input tc,
          expected_output = expected,
          actual_output =
            (if t_err \<noteq> [] \<and> strip t_err \<noteq> [] then
               (if actual \<noteq> [] then actual @ [10] @ error_label @ strip t_err
                else error_label @ strip t_err)
             else actual),
          passed = (t_exit = 0 \<and> actual = expected),
          tr_exit_code = t_exit,
          tr_duration_ms = dur\<rparr>)"

text \<open>\<open>first_error_output\<close> after one test.\<close>

definition next_first_error :: "pystr \<Rightarrow> pystr \<Rightarrow> pystr" where
  "next_first_error first_error_output t_err =
     (if t_err \<noteq> [] \<and> strip t_err \<noteq> [] then
        (if first_error_output = [] then strip t_err else first_error_output)
      else first_error_output)"

text \<open>
  The loop over the test cases, from test \<open>test_idx\<close> on, with \<open>first_error_output\<close>
  and the results so far. \<open>off\<close> is the number of commands awaited before the first test.
\<close>

fun run_tests ::
  "env \<Rightarrow> pystr \<Rightarrow> int \<Rightarrow> nat \<Rightarrow> nat \<Rightarrow> test_case list \<Rightarrow> pystr \<Rightarrow> test_result list \<Rightarrow> world
     \<Rightarrow> (exc + (pystr \<times> test_result list)) \<times> world" where
  "run_tests en runner t off test_idx [] first_error_output results w =
     (Inr (first_error_output, results), w)"
| "run_tests en runner t off test_idx (tc # rest) first_error_output results w =
     (case utf8_encode (tc_input tc) of
        Inl e \<Rightarrow> (Inl e, w)
      | Inr bytes \<Rightarrow>
          (case exec_in_container en (off + test_idx) (test_command (b64encode bytes) runner) t w of
             (oc, w1) \<Rightarrow>
               (case test_outcome t oc of
                  Inl e \<Rightarrow> (Inl e, w1)
                | Inr (t_exit, t_out, t_err) \<Rightarrow>
                    run_tests en runner t off (Suc test_idx) rest
                      (next_first_error first_error_output t_err)
                      (results @ [make_test_result test_idx tc t_exit t_out t_err
                                    (test_elapsed_ms en test_idx)])
                      w1)))"

text \<open>The lines of the transcript, with the labels of the source as code points.\<close>

definition verdict_label :: pystr where
  "verdict_label = [1042, 1077, 1088, 1076, 1080, 1082, 1090, 58, 32]"

definition passed_label :: pystr where
  "passed_label =
     [1055, 1088, 1086, 1081, 1076, 1077, 1085, 1086, 32, 1090, 1077, 1089, 1090, 1086, 1074, 58, 32]"

definition test_line :: "test_result \<Rightarrow> pystr" where
  "test_line tr =
     (if passed tr then [9989] else [10060]) @ [32, 1058, 1077, 1089, 1090, 32]
     @ str_of_int (test_index tr) @ str '': '' @ actual_output tr
     @ [32, 40, 1086, 1078, 1080, 1076, 1072, 1083, 1086, 1089, 1100, 58, 32]
     @ expected_output tr @ str '')''"

text \<open>
  What follows the loop: the verdict, the transcript, the request-level stderr and the
  exit code. stderr starts empty and takes \<open>first_error_output\<close> only when a test failed.
\<close>

definition summarise :: "pystr \<Rightarrow> test_result list \<Rightarrow> pystr \<times> pystr \<times> int \<times> pystr" where
  "summarise first_error_output results =
     (let passed_count = length (filter passed results);
          total_count = length results;
          all_passed = (passed_count = total_count);
          v = (if all_passed then ACCEPTED else WRONG_ANSWER);
          stdout_lines =
            [verdict_label @ v,
             passed_label @ str_of_int (int passed_count) @ str ''/'' @ str_of_int (int total_count),
             []]
            @ map test_line results
      in (join [10] stdout_lines,
          if \<not> all_passed \<and> first_error_output \<noteq> [] then first_error_output else [],
          if all_passed then 0 else 1,
          v))"

text \<open>
  The body of the \<open>try\<close> of batch mode: one container, started and then populated, the
  build step, the tests. Nothing is caught here.
\<close>

definition batch_try ::
  "env \<Rightarrow> language_config \<Rightarrow> pystr \<Rightarrow> pystr \<Rightarrow> int \<Rightarrow> test_case list \<Rightarrow> world
     \<Rightarrow> (exc + ((pystr \<times> pystr \<times> int \<times> pystr) \<times> test_result list)) \<times> bool \<times> world" where
  "batch_try en config lang main_file_path t tcs w =
     (case containers_create en of
        Some e \<Rightarrow> (Inl e, False, w)
      | None \<Rightarrow>
     let w1 = log (ContainerCreate (image config)
                     (str ''/bin/sh -c '' @ [34] @ str ''sleep 3600'' @ [34])
                     (lang \<noteq> str ''typescript'')) w in
     case container_start en of
        Some e \<Rightarrow> (Inl e, True, w1)
      | None \<Rightarrow>
     let w2 = log ContainerStart w1 in
     case put_archive en of
        Some e \<Rightarrow> (Inl e, True, w2)
      | None \<Rightarrow>
     let w3 = log PutArchive w2 in
     case compile_step en lang main_file_path t w3 of
        (Some e, w4) \<Rightarrow> (Inl e, True, w4)
      | (None, w4) \<Rightarrow>
     case run_tests en (runner_command lang main_file_path) t
            (first_test_call lang main_file_path) 0 tcs [] [] w4 of
        (Inl e, w5) \<Rightarrow> (Inl e, True, w5)
      | (Inr (first_error_output, results), w5) \<Rightarrow>
          (Inr (summarise first_error_output results, results), True, w5))"

definition batch_run ::
  "env \<Rightarrow> language_config \<Rightarrow> pystr \<Rightarrow> pystr \<Rightarrow> int \<Rightarrow> test_case list \<Rightarrow> world
     \<Rightarrow> (exc + ((pystr \<times> pystr \<times> int \<times> pystr) \<times> test_result list)) \<times> world" where
  "batch_run en config lang main_file_path t tcs w =
     (case batch_try en config lang main_file_path t tcs w of
        (r, container, w1) \<Rightarrow> (r, finally_remove en container w1))"

section \<open>The engine\<close>

text \<open>
  The body of the outer \<open>try\<close>: the files are written, the language is resolved, and
  the request runs in single-run mode when \<open>test_cases\<close> is \<open>None\<close> or empty, in batch
  mode otherwise. The prints between the resolution and the run are left out: they
  print the command, made of ASCII text and parts of the main file path, which was
  printed before, the ASCII path of the workspace, and the names in it, which are those
  of the files written.
\<close>

definition execute_body :: "env \<Rightarrow> request \<Rightarrow> world \<Rightarrow> (exc + execution_result) \<times> world" where
  "execute_body en req w =
     (case write_files en (files req) w of
        (Some e, w1) \<Rightarrow> (Inl e, w1)
      | (None, w1) \<Rightarrow>
     case resolve_language (files req) (language req) of
        Inl e \<Rightarrow> (Inl e, w1)
      | Inr (lang, main_file_path, config) \<Rightarrow>
     case (case test_cases req of None \<Rightarrow> [] | Some tcs \<Rightarrow> tcs) of
        [] \<Rightarrow>
          (case single_run en config lang (run_command lang main_file_path) (timeout req) w1 of
             (Inl e, w2) \<Rightarrow> (Inl e, w2)
           | (Inr (out, err, code), w2) \<Rightarrow>
               (Inr \<lparr>stdout = out, stderr = err, exit_code = code, duration_ms = elapsed_ms en,
                     test_results = None, verdict = None\<rparr>, w2))
      | tc # rest \<Rightarrow>
          (case batch_run en config lang main_file_path (timeout req) (tc # rest) w1 of
             (Inl e, w2) \<Rightarrow> (Inl e, w2)
           | (Inr ((out, err, code, v), results), w2) \<Rightarrow>
               (Inr \<lparr>stdout = out, stderr = err, exit_code = code, duration_ms = elapsed_ms en,
                     test_results = Some results, verdict = Some v\<rparr>, w2)))"

text \<open>
  \<open>execute_code\<close>: the workspace directory is made before the outer \<open>try\<close>, and the
  \<open>finally\<close> calls \<open>shutil.rmtree\<close> on it if it exists, whatever the body did. A removal
  that fails on an error of the operating system is ignored and the directory stays; a
  removal that raises anything else leaves the directory too, and its exception takes
  the place of the body's result.
\<close>

definition execute_code :: "env \<Rightarrow> request \<Rightarrow> world \<Rightarrow> (exc + execution_result) \<times> world" where
  "execute_code en req w =
     (case makedirs_base en of
        Some e \<Rightarrow> (Inl e, w)
      | None \<Rightarrow>
     case makedirs_tmpdir en of
        Some e \<Rightarrow> (Inl e, w)
      | None \<Rightarrow>
     case execute_body en req (log MakeDirs (w\<lparr>tmpdir_exists := True\<rparr>)) of
        (r, w2) \<Rightarrow>
          (if tmpdir_exists w2 then
             (case rmtree en of
                Removed \<Rightarrow> (r, log RmTree (w2\<lparr>tmpdir_exists := False\<rparr>))
              | Kept \<Rightarrow> (r, log RmTree w2)
              | RemovalRaised e \<Rightarrow> (Inl e, log RmTree w2))
           else (r, w2)))"

section \<open>Vocabulary of the statements\<close>

text \<open>
  What awaiting the run of one test as the k-th command gives, with the given runner
  command and deadline: \<open>None\<close> when the input has no UTF-8 form, so that no command is
  awaited for it.
\<close>

definition exec_of :: "env \<Rightarrow> pystr \<Rightarrow> int \<Rightarrow> nat \<Rightarrow> test_case \<Rightarrow> exec_outcome option" where
  "exec_of en runner t k tc =
     (case utf8_encode (tc_input tc) of
        Inl e \<Rightarrow> None
      | Inr bytes \<Rightarrow> Some (run_outcome en k (test_command (b64encode bytes) runner) t))"

text \<open>The same for test \<open>i\<close> (counted from 0) of a batch in the given language.\<close>

definition test_exec ::
  "env \<Rightarrow> pystr \<Rightarrow> pystr \<Rightarrow> int \<Rightarrow> nat \<Rightarrow> test_case \<Rightarrow> exec_outcome option" where
  "test_exec en lang main_file_path t i tc =
     exec_of en (runner_command lang main_file_path) t (first_test_call lang main_file_path + i) tc"

text \<open>
  The stripped \<open>t_err\<close> of a test's run: the stderr of a run that came back, the
  timeout message of one that passed its deadline.
\<close>

definition stderr_of :: "int \<Rightarrow> exec_outcome option \<Rightarrow> pystr" where
  "stderr_of t oc =
     (case oc of
        None \<Rightarrow> []
      | Some o1 \<Rightarrow> (case test_outcome t o1 of Inl e \<Rightarrow> [] | Inr (c, out, err) \<Rightarrow> strip err))"

text \<open>The stripped \<open>t_out\<close> of a test's run.\<close>

definition stdout_of :: "int \<Rightarrow> exec_outcome option \<Rightarrow> pystr" where
  "stdout_of t oc =
     (case oc of
        None \<Rightarrow> []
      | Some o1 \<Rightarrow> (case test_outcome t o1 of Inl e \<Rightarrow> [] | Inr (c, out, err) \<Rightarrow> strip out))"

text \<open>The workspace is made and every file of the request is written.\<close>

definition workspace_ready :: "env \<Rightarrow> request \<Rightarrow> bool" where
  "workspace_ready en req \<longleftrightarrow>
     makedirs_base en = None \<and> makedirs_tmpdir en = None
     \<and> list_all (\<lambda>(filepath, content). write_file en filepath content = None) (files req)"

text \<open>The container of a batch is created, started and populated.\<close>

definition container_ready :: "env \<Rightarrow> bool" where
  "container_ready en \<longleftrightarrow>
     containers_create en = None \<and> container_start en = None \<and> put_archive en = None"

text \<open>The build command, if the language has one, comes back (with any exit code).\<close>

definition build_returns :: "env \<Rightarrow> pystr \<Rightarrow> pystr \<Rightarrow> int \<Rightarrow> bool" where
  "build_returns en lang main_file_path t \<longleftrightarrow>
     (case compile_command lang main_file_path of
        None \<Rightarrow> True
      | Some command \<Rightarrow>
          (case run_outcome en 0 command t of
             Returned c out err \<Rightarrow> True
           | TimedOut \<Rightarrow> False
           | NotStarted \<Rightarrow> False
           | Raised e \<Rightarrow> False))"

text \<open>
  The run of a test comes back or passes its deadline, started or not; it raises nothing
  but a \<open>TimeoutError\<close>.
\<close>

definition answers :: "exec_outcome option \<Rightarrow> bool" where
  "answers oc \<longleftrightarrow>
     (case oc of
        None \<Rightarrow> False
      | Some (Returned c out err) \<Rightarrow> True
      | Some TimedOut \<Rightarrow> True
      | Some NotStarted \<Rightarrow> True
      | Some (Raised e) \<Rightarrow> (case e of TimeoutError m \<Rightarrow> True | _ \<Rightarrow> False))"

text \<open>The deadline of a test's run passed, with the command at work or never started.\<close>

definition deadline_passed :: "exec_outcome option \<Rightarrow> bool" where
  "deadline_passed oc \<longleftrightarrow> oc = Some TimedOut \<or> oc = Some NotStarted"

text \<open>
  The calls of \<open>container.exec_run\<close> the loop makes for the tests, the first test being
  the k-th command: one call for each test whose run started, for as long as the loop
  goes on.
\<close>

fun test_events :: "env \<Rightarrow> pystr \<Rightarrow> int \<Rightarrow> nat \<Rightarrow> test_case list \<Rightarrow> event list" where
  "test_events en runner t k [] = []"
| "test_events en runner t k (tc # rest) =
     (case utf8_encode (tc_input tc) of
        Inl e \<Rightarrow> []
      | Inr bytes \<Rightarrow>
          (if run_outcome en k (test_command (b64encode bytes) runner) t = NotStarted then []
           else [ExecRun (test_command (b64encode bytes) runner) t])
          @ (case test_outcome t (run_outcome en k (test_command (b64encode bytes) runner) t) of
               Inl e \<Rightarrow> []
             | Inr res \<Rightarrow> test_events en runner t (Suc k) rest))"

text \<open>The tests of a batch, by number, whose run started.\<close>

definition started_tests :: "env \<Rightarrow> pystr \<Rightarrow> pystr \<Rightarrow> int \<Rightarrow> test_case list \<Rightarrow> nat list" where
  "started_tests en lang main_file_path t tcs =
     filter (\<lambda>j. test_exec en lang main_file_path t j (tcs ! j) \<noteq> Some NotStarted)
       [0..<length tcs]"


text \<open>The removal of the workspace directory raises nothing.\<close>

definition removal_returns :: "env \<Rightarrow> bool" where
  "removal_returns en \<longleftrightarrow>
     (case rmtree en of Removed \<Rightarrow> True | Kept \<Rightarrow> True | RemovalRaised e \<Rightarrow> False)"

text \<open>The effect of the build step: one command, or none for Python.\<close>

definition build_events :: "pystr \<Rightarrow> pystr \<Rightarrow> int \<Rightarrow> event list" where
  "build_events lang main_file_path t =
     (case compile_command lang main_file_path of None \<Rightarrow> [] | Some command \<Rightarrow> [ExecRun command t])"

text \<open>The effect of the removal of the container: none when the removal fails.\<close>

definition remove_events :: "env \<Rightarrow> event list" where
  "remove_events en = (case container_remove en of None \<Rightarrow> [ContainerRemove] | Some e \<Rightarrow> [])"

text \<open>The container of single-run mode is created, populated and started, and exits in time.\<close>

definition run_completes :: "env \<Rightarrow> bool" where
  "run_completes en \<longleftrightarrow>
     containers_create en = None \<and> put_archive en = None \<and> container_start en = None
     \<and> container_wait en = None"

section \<open>Sample requests and environments\<close>

text \<open>The world before a request: no workspace, nothing done.\<close>

definition world0 :: world where
  "world0 = \<lparr>tmpdir_exists = False, trace = []\<rparr>"

text \<open>An environment in which every call succeeds and every command prints \<open>hello\<close>.\<close>

definition calm_env :: env where
  "calm_env =
     \<lparr>makedirs_base = None, makedirs_tmpdir = None, write_file = (\<lambda>filepath content. None),
      containers_create = None, put_archive = None, container_start = None,
      container_wait = None, container_stop = None,
      container_logs = Inr (str ''hello'' @ [10], [], Some 0), container_remove = None,
      exec_run = (\<lambda>k command. Returned 0 (str ''hello'' @ [10]) []),
      rmtree = Removed, elapsed_ms = 40, test_elapsed_ms = (\<lambda>i. 7)\<rparr>"

text \<open>Two tests for a program that prints its input: the first expects that, the second does not.\<close>

definition echo_tests :: "test_case list" where
  "echo_tests =
     [\<lparr>tc_input = str ''hello'', tc_output = str ''hello''\<rparr>,
      \<lparr>tc_input = str ''1'', tc_output = str ''2''\<rparr>]"

definition echo_request :: request where
  "echo_request =
     \<lparr>language = str ''python'', files = [(str ''main.py'', str ''print(input())'')],
      timeout = 30, test_cases = Some echo_tests\<rparr>"

text \<open>One test that the printed \<open>hello\<close> passes.\<close>

definition hello_tests :: "test_case list" where
  "hello_tests = [\<lparr>tc_input = str ''hello'', tc_output = str ''hello'' @ [10]\<rparr>]"

definition hello_request :: request where
  "hello_request =
     \<lparr>language = str ''python'', files = [(str ''main.py'', str ''print(input())'')],
      timeout = 30, test_cases = Some hello_tests\<rparr>"

text \<open>The first command run in the container passes its deadline; the others print \<open>hello\<close>.\<close>

definition slow_env :: env where
  "slow_env =
     calm_env\<lparr>exec_run :=
       (\<lambda>k command. if k = 0 then TimedOut else Returned 0 (str ''hello'' @ [10]) [])\<rparr>"

text \<open>Every command prints \<open>hello\<close> and a warning on stderr, and exits with 0.\<close>

definition noisy_env :: env where
  "noisy_env =
     calm_env\<lparr>exec_run :=
       (\<lambda>k command. Returned 0 (str ''hello'' @ [10]) (str ''DeprecationWarning''))\<rparr>"

text \<open>A Go program sent as Python, with the two tests of above.\<close>

definition go_request :: request where
  "go_request =
     \<lparr>language = str ''python'', files = [(str ''main.go'', str ''package main'')],
      timeout = 30, test_cases = Some echo_tests\<rparr>"

text \<open>The build fails with exit code 1, and then the binary is not found.\<close>

definition broken_build_env :: env where
  "broken_build_env =
     calm_env\<lparr>exec_run :=
       (\<lambda>k command. if k = 0 then Returned 1 [] (str ''main.go:1:1: syntax error'')
                     else Returned 127 [] (str ''sh: ./main_bin: not found''))\<rparr>"

text \<open>A Python program without tests.\<close>

definition single_request :: request where
  "single_request =
     \<lparr>language = str ''python'', files = [(str ''main.py'', str ''print(1+1)'')],
      timeout = 30, test_cases = None\<rparr>"

text \<open>The program prints 2 and exits with 0, with a warning on stderr.\<close>

definition warning_env :: env where
  "warning_env =
     calm_env\<lparr>container_logs := Inr (str ''2'' @ [10], str ''SyntaxWarning: invalid escape'', Some 0)\<rparr>"

text \<open>A request in a language that is not registered, without files.\<close>

definition empty_ruby_request :: request where
  "empty_ruby_request = \<lparr>language = str ''ruby'', files = [], timeout = 30, test_cases = None\<rparr>"

text \<open>
  The same language, with a file and a second one below the first as if that were a
  directory, and a file system that refuses the second write.
\<close>

definition nested_ruby_request :: request where
  "nested_ruby_request =
     \<lparr>language = str ''ruby'', files = [(str ''app'', []), (str ''app/main.rb'', str ''puts 1'')],
      timeout = 30, test_cases = None\<rparr>"

definition readonly_env :: env where
  "readonly_env =
     calm_env\<lparr>write_file :=
       (\<lambda>filepath content. if filepath = str ''app/main.rb''
          then Some (OSError (str ''Not a directory'')) else None)\<rparr>"

text \<open>The daemon does not have the image: the creation of the container raises.\<close>

definition no_image_env :: env where
  "no_image_env = calm_env\<lparr>containers_create := Some (DockerException (str ''No such image''))\<rparr>"

text \<open>A program in a language that is not registered, without tests.\<close>

definition ruby_request :: request where
  "ruby_request =
     \<lparr>language = str ''ruby'', files = [(str ''main.rb'', str ''puts 1'')],
      timeout = 30, test_cases = None\<rparr>"

text \<open>The Go program sent as Python, without tests.\<close>

definition go_single_request :: request where
  "go_single_request =
     \<lparr>language = str ''python'', files = [(str ''main.go'', str ''package main'')],
      timeout = 30, test_cases = None\<rparr>"

text \<open>
  Nine tests for a program that never ends, on a host with eight worker threads: the
  first eight runs pass their deadline and keep their threads, the ninth never starts.
\<close>

definition hang_case :: test_case where
  "hang_case = \<lparr>tc_input = str ''1'', tc_output = str ''1''\<rparr>"

definition hang_tests :: "test_case list" where
  "hang_tests = [hang_case, hang_case, hang_case, hang_case, hang_case, hang_case, hang_case,
                 hang_case, hang_case]"

definition hang_request :: request where
  "hang_request =
     \<lparr>language = str ''python'', files = [(str ''main.py'', str ''while True: pass'')],
      timeout = 1, test_cases = Some hang_tests\<rparr>"

definition hang_env :: env where
  "hang_env = calm_env\<lparr>exec_run := (\<lambda>k command. if k < 8 then TimedOut else NotStarted)\<rparr>"

text \<open>
  A TypeScript program with a type error: the compiler exits with 2 and still writes
  the JavaScript, which prints \<open>hello\<close>.
\<close>

definition ts_request :: request where
  "ts_request =
     \<lparr>language = str ''typescript'', files = [(str ''main.ts'', str ''const n: number = true; console.log(`hello`)'')],
      timeout = 30, test_cases = Some hello_tests\<rparr>"

definition lenient_build_env :: env where
  "lenient_build_env =
     calm_env\<lparr>exec_run :=
       (\<lambda>k command. if k = 0 then Returned 2 (str ''main.ts(1,5): error TS2322'') []
                     else Returned 0 (str ''hello'' @ [10]) [])\<rparr>"

text \<open>The removal of the workspace fails and is ignored; the removal raises.\<close>

definition stuck_env :: env where
  "stuck_env = calm_env\<lparr>rmtree := Kept\<rparr>"

definition deep_env :: env where
  "deep_env =
     calm_env\<lparr>rmtree := RemovalRaised (RecursionError (str ''maximum recursion depth exceeded''))\<rparr>"

text \<open>A declared language that cannot be printed (a lone surrogate), with one plain file.\<close>

definition surrogate_request :: request where
  "surrogate_request =
     \<lparr>language = [55296], files = [(str ''README'', [])], timeout = 30, test_cases = None\<rparr>"

section \<open>Evaluation\<close>

text \<open>The definitions a concrete run unfolds; the recursive functions unfold by their own equations.\<close>

lemmas evaluation =
  str_def isspace_def strip_def endswith_def lower_char_def lower_def rfind_def splitext_def
  basename_def replace.simps nat_digits.simps str_of_int_def utf8_char_def b64_char_def
  LANGUAGE_CONFIG_def ACCEPTED_def WRONG_ANSWER_def ext_map_def detect_language_from_file_def
  main_ext_map_def resolve_language_def run_command_def compile_command_def runner_command_def
  test_command_def timeout_message_def log_def single_try_def finally_remove_def single_run_def
  print_text_def run_outcome_def exec_in_container_def compile_step_def first_test_call_def error_label_def
  make_test_result_def next_first_error_def verdict_label_def passed_label_def test_line_def
  summarise_def batch_try_def batch_run_def execute_body_def execute_code_def
  build_events_def remove_events_def exec_of_def test_exec_def stderr_of_def stdout_of_def workspace_ready_def container_ready_def build_returns_def answers_def
  deadline_passed_def started_tests_def removal_returns_def
  world0_def calm_env_def echo_tests_def echo_request_def hello_tests_def hello_request_def
  slow_env_def noisy_env_def go_request_def broken_build_env_def single_request_def
  warning_env_def run_completes_def empty_ruby_request_def nested_ruby_request_def
  readonly_env_def no_image_env_def go_single_request_def ruby_request_def hang_case_def hang_tests_def hang_request_def
  hang_env_def ts_request_def lenient_build_env_def stuck_env_def deep_env_def
  surrogate_request_def Let_def

section \<open>The loop over the tests\<close>

lemma ACCEPTED_neq_WRONG_ANSWER: "ACCEPTED \<noteq> WRONG_ANSWER"
  by (simp add: ACCEPTED_def WRONG_ANSWER_def str_def)

lemma filter_all_length: "length (filter P xs) = length xs \<longleftrightarrow> (\<forall>x\<in>set xs. P x)"
proof
  assume eq: "length (filter P xs) = length xs"
  show "\<forall>x\<in>set xs. P x"
  proof
    fix x assume "x \<in> set xs"
    with eq length_filter_less [of x xs P] show "P x" by auto
  qed
next
  assume "\<forall>x\<in>set xs. P x"
  then show "length (filter P xs) = length xs"
    by simp
qed

lemma summarise_fields:
  "summarise feo rs = (out, err, code, v) \<Longrightarrow>
     v = (if \<forall>tr\<in>set rs. passed tr then ACCEPTED else WRONG_ANSWER)
     \<and> code = (if \<forall>tr\<in>set rs. passed tr then 0 else 1)
     \<and> err = (if (\<forall>tr\<in>set rs. passed tr) \<or> feo = [] then [] else feo)"
  by (auto simp: summarise_def Let_def filter_all_length)

lemma exec_in_container_pair:
  "exec_in_container en k c t w = (oc, w1) \<Longrightarrow>
     oc = run_outcome en k c t \<and> w1 = snd (exec_in_container en k c t w)"
  by (auto simp: exec_in_container_def split: exec_outcome.splits)

lemma exec_in_container_snd:
  "snd (exec_in_container en k c t w)
     = (if run_outcome en k c t = NotStarted then w else log (ExecRun c t) w)"
  by (simp add: exec_in_container_def split: exec_outcome.splits)

lemma run_tests_length:
  "run_tests en runner t off idx tcs feo rs w = (Inr (feo', rs'), w') \<Longrightarrow>
     length rs' = length rs + length tcs"
proof (induction tcs arbitrary: idx feo rs w)
  case Nil
  then show ?case by simp
next
  case (Cons tc tcs)
  then show ?case
    by (auto split: sum.splits prod.splits)
qed

lemma run_tests_prefix:
  "run_tests en runner t off idx tcs feo rs w = (Inr (feo', rs'), w') \<Longrightarrow>
     i < length rs \<Longrightarrow> rs' ! i = rs ! i"
proof (induction tcs arbitrary: idx feo rs w)
  case Nil
  then show ?case by simp
next
  case (Cons tc tcs)
  then show ?case
    by (fastforce simp: nth_append split: sum.splits prod.splits)
qed

lemma run_tests_Cons_Inr:
  assumes "run_tests en runner t off idx (tc # tcs) feo rs w = (Inr (feo', rs'), w')"
  obtains bytes c out err where
    "utf8_encode (tc_input tc) = Inr bytes"
    "test_outcome t (run_outcome en (off + idx) (test_command (b64encode bytes) runner) t)
       = Inr (c, out, err)"
    "run_tests en runner t off (Suc idx) tcs (next_first_error feo err)
       (rs @ [make_test_result idx tc c out err (test_elapsed_ms en idx)])
       (snd (exec_in_container en (off + idx) (test_command (b64encode bytes) runner) t w))
     = (Inr (feo', rs'), w')"
  using assms by (auto split: sum.splits prod.splits dest!: exec_in_container_pair)

lemma run_tests_nth:
  "run_tests en runner t off idx tcs feo rs w = (Inr (feo', rs'), w') \<Longrightarrow> i < length tcs \<Longrightarrow>
     \<exists>bytes c out err.
        utf8_encode (tc_input (tcs ! i)) = Inr bytes
        \<and> test_outcome t (run_outcome en (off + idx + i) (test_command (b64encode bytes) runner) t)
            = Inr (c, out, err)
        \<and> rs' ! (length rs + i)
            = make_test_result (idx + i) (tcs ! i) c out err (test_elapsed_ms en (idx + i))"
proof (induction tcs arbitrary: idx feo rs w i)
  case Nil
  then show ?case by simp
next
  case (Cons tc tcs)
  from Cons.prems(1) obtain bytes c out err where
    enc: "utf8_encode (tc_input tc) = Inr bytes"
    and oc: "test_outcome t (run_outcome en (off + idx) (test_command (b64encode bytes) runner) t)
               = Inr (c, out, err)"
    and rest: "run_tests en runner t off (Suc idx) tcs (next_first_error feo err)
                 (rs @ [make_test_result idx tc c out err (test_elapsed_ms en idx)])
                 (snd (exec_in_container en (off + idx) (test_command (b64encode bytes) runner) t w))
               = (Inr (feo', rs'), w')"
    by (rule run_tests_Cons_Inr)
  show ?case
  proof (cases i)
    case 0
    have "rs' ! length rs
            = (rs @ [make_test_result idx tc c out err (test_elapsed_ms en idx)]) ! length rs"
      using run_tests_prefix [OF rest, of "length rs"] by simp
    with 0 enc oc show ?thesis by simp
  next
    case (Suc j)
    with Cons.prems(2) have j: "j < length tcs" by simp
    from Cons.IH [OF rest j] Suc show ?thesis by simp
  qed
qed

section \<open>The shape of a batch result\<close>

lemma execute_body_batch_Inr:
  assumes "execute_body en req w = (Inr r, w')" "test_cases req = Some tcs" "tcs \<noteq> []"
  shows "\<exists>lang main config feo rs wa wb out err code v.
           resolve_language (files req) (language req) = Inr (lang, main, config)
           \<and> run_tests en (runner_command lang main) (timeout req) (first_test_call lang main) 0
                tcs [] [] wa = (Inr (feo, rs), wb)
           \<and> summarise feo rs = (out, err, code, v)
           \<and> r = \<lparr>stdout = out, stderr = err, exit_code = code, duration_ms = elapsed_ms en,
                   test_results = Some rs, verdict = Some v\<rparr>"
proof -
  from assms(3) obtain tc rest where tcs: "tcs = tc # rest" by (cases tcs) auto
  from assms(1,2) show ?thesis unfolding tcs
    by (simp add: execute_body_def batch_run_def batch_try_def Let_def
        del: run_tests.simps split: option.splits sum.splits prod.splits) blast
qed

lemma execute_code_body:
  "execute_code en req w = (Inr r, w') \<Longrightarrow> \<exists>wa wb. execute_body en req wa = (Inr r, wb)"
  by (auto simp: execute_code_def split: option.splits prod.splits if_splits removal.splits)

lemma batch_result_shape:
  assumes "execute_code en req w = (Inr r, w')" "test_cases req = Some tcs" "tcs \<noteq> []"
  shows "\<exists>lang main config feo rs wa wb out err code v.
           resolve_language (files req) (language req) = Inr (lang, main, config)
           \<and> run_tests en (runner_command lang main) (timeout req) (first_test_call lang main) 0
                tcs [] [] wa = (Inr (feo, rs), wb)
           \<and> summarise feo rs = (out, err, code, v)
           \<and> r = \<lparr>stdout = out, stderr = err, exit_code = code, duration_ms = elapsed_ms en,
                   test_results = Some rs, verdict = Some v\<rparr>"
proof -
  from execute_code_body [OF assms(1)] obtain wa wb where "execute_body en req wa = (Inr r, wb)"
    by blast
  from execute_body_batch_Inr [OF this assms(2,3)] show ?thesis .
qed

lemma echo_returns: "\<not> isl (fst (execute_code calm_env echo_request world0))"
  by (simp add: evaluation)

lemma echo_result:
  obtains r w' where "execute_code calm_env echo_request world0 = (Inr r, w')"
  using echo_returns
  by (cases "execute_code calm_env echo_request world0";
      cases "fst (execute_code calm_env echo_request world0)") auto

lemma echo_resolves:
  "resolve_language (files echo_request) (language echo_request)
     = Inr (str ''python'', str ''main.py'',
            \<lparr>image = str ''python:3.12-slim'', main_file = str ''main.py'', setup_command = None\<rparr>)"
  by (simp add: evaluation)

lemma hello_returns: "\<not> isl (fst (execute_code calm_env hello_request world0))"
  by (simp add: evaluation)

lemma hello_result:
  obtains r w' where "execute_code calm_env hello_request world0 = (Inr r, w')"
  using hello_returns
  by (cases "execute_code calm_env hello_request world0";
      cases "fst (execute_code calm_env hello_request world0)") auto

section \<open>The result of one test\<close>

lemma make_test_result_sel:
  "passed (make_test_result i tc c out err d) \<longleftrightarrow> c = 0 \<and> strip out = strip (tc_output tc)"
  "tr_exit_code (make_test_result i tc c out err d) = c"
  "expected_output (make_test_result i tc c out err d) = strip (tc_output tc)"
  "tr_input (make_test_result i tc c out err d) = tc_input tc"
  "test_index (make_test_result i tc c out err d) = int i + 1"
  "tr_duration_ms (make_test_result i tc c out err d) = d"
  "actual_output (make_test_result i tc c out err d)
     = (if strip err \<noteq> [] then
          (if strip out \<noteq> [] then strip out @ [10] @ error_label @ strip err
           else error_label @ strip err)
        else strip out)"
  by (auto simp: make_test_result_def Let_def strip_def)

lemma batch_test_result:
  assumes ex: "execute_code en req w = (Inr r, w')"
    and tcs: "test_cases req = Some tcs"
    and res: "resolve_language (files req) (language req) = Inr (lang, main, config)"
    and i: "i < length tcs"
  shows "\<exists>rs oc c out err.
           test_results r = Some rs \<and> length rs = length tcs
           \<and> test_exec en lang main (timeout req) i (tcs ! i) = Some oc
           \<and> test_outcome (timeout req) oc = Inr (c, out, err)
           \<and> rs ! i = make_test_result i (tcs ! i) c out err (test_elapsed_ms en i)"
proof -
  from i have ne: "tcs \<noteq> []" by auto
  from batch_result_shape [OF ex tcs ne] res obtain feo rs wa wb so se code v where
    run: "run_tests en (runner_command lang main) (timeout req) (first_test_call lang main) 0
            tcs [] [] wa = (Inr (feo, rs), wb)"
    and r: "r = \<lparr>stdout = so, stderr = se, exit_code = code, duration_ms = elapsed_ms en,
                 test_results = Some rs, verdict = Some v\<rparr>"
    by auto
  from run_tests_nth [OF run i] obtain bytes c out err where
    enc: "utf8_encode (tc_input (tcs ! i)) = Inr bytes"
    and oc: "test_outcome (timeout req)
               (run_outcome en (first_test_call lang main + 0 + i)
                  (test_command (b64encode bytes) (runner_command lang main)) (timeout req))
             = Inr (c, out, err)"
    and nth: "rs ! (length ([]::test_result list) + i)
                = make_test_result (0 + i) (tcs ! i) c out err (test_elapsed_ms en (0 + i))"
    by blast
  from enc have te: "test_exec en lang main (timeout req) i (tcs ! i)
      = Some (run_outcome en (first_test_call lang main + i)
                (test_command (b64encode bytes) (runner_command lang main)) (timeout req))"
    by (simp add: test_exec_def exec_of_def)
  from run_tests_length [OF run] have "length rs = length tcs" by simp
  with r te oc nth show ?thesis by simp
qed

lemma verdict_len:
  assumes "execute_code en req w = (Inr r, w')" "test_cases req = Some tcs" "tcs \<noteq> []"
  shows "\<exists>rs. test_results r = Some rs \<and> length rs = length tcs"
proof -
  from batch_result_shape [OF assms] obtain lang main feo rs wa wb out err code v where
    run: "run_tests en (runner_command lang main) (timeout req) (first_test_call lang main) 0
            tcs [] [] wa = (Inr (feo, rs), wb)"
    and r: "r = \<lparr>stdout = out, stderr = err, exit_code = code, duration_ms = elapsed_ms en,
                 test_results = Some rs, verdict = Some v\<rparr>"
    by blast
  from run_tests_length [OF run] r show ?thesis by simp
qed

section \<open>The verdict\<close>

text \<open>
  C1. In batch mode (a non-empty \<open>test_cases\<close>), a returned result carries one test
  result per test case; its verdict is \<open>ACCEPTED\<close> exactly when every test result has
  \<open>passed\<close>, and it is \<open>WRONG ANSWER\<close> otherwise.
\<close>

theorem verdict_accepted_iff_all_passed:
  assumes "execute_code en req w = (Inr r, w')" "test_cases req = Some tcs" "tcs \<noteq> []"
  shows "\<exists>rs. test_results r = Some rs \<and> length rs = length tcs
           \<and> (verdict r = Some ACCEPTED \<longleftrightarrow> (\<forall>tr\<in>set rs. passed tr))
           \<and> (verdict r = Some ACCEPTED \<or> verdict r = Some WRONG_ANSWER)"
proof -
  from batch_result_shape [OF assms] obtain lang main config feo rs wa wb out err code v where
    run: "run_tests en (runner_command lang main) (timeout req) (first_test_call lang main) 0
            tcs [] [] wa = (Inr (feo, rs), wb)"
    and sm: "summarise feo rs = (out, err, code, v)"
    and r: "r = \<lparr>stdout = out, stderr = err, exit_code = code, duration_ms = elapsed_ms en,
                 test_results = Some rs, verdict = Some v\<rparr>"
    by blast
  from run_tests_length [OF run] have len: "length rs = length tcs" by simp
  from summarise_fields [OF sm]
  have v: "v = (if \<forall>tr\<in>set rs. passed tr then ACCEPTED else WRONG_ANSWER)" by simp
  show ?thesis
    using len v r ACCEPTED_neq_WRONG_ANSWER by auto
qed

theorem verdict_accepted_iff_all_passed_witness:
  "\<exists>r w' rs. execute_code calm_env echo_request world0 = (Inr r, w')
      \<and> test_cases echo_request = Some echo_tests \<and> echo_tests \<noteq> []
      \<and> test_results r = Some rs \<and> length rs = length echo_tests
      \<and> (verdict r = Some ACCEPTED \<longleftrightarrow> (\<forall>tr\<in>set rs. passed tr))
      \<and> (verdict r = Some ACCEPTED \<or> verdict r = Some WRONG_ANSWER)"
proof -
  obtain r w' where e: "execute_code calm_env echo_request world0 = (Inr r, w')"
    by (rule echo_result)
  have t: "test_cases echo_request = Some echo_tests" by (simp add: echo_request_def)
  have n: "echo_tests \<noteq> []" by (simp add: echo_tests_def)
  from verdict_accepted_iff_all_passed [OF e t n] e t n show ?thesis by blast
qed

text \<open>
  C7. In batch mode the exit code of a returned result is 0 exactly when the verdict is
  \<open>ACCEPTED\<close>, and 1 otherwise.
\<close>

theorem exit_code_zero_iff_accepted:
  assumes "execute_code en req w = (Inr r, w')" "test_cases req = Some tcs" "tcs \<noteq> []"
  shows "(exit_code r = 0 \<longleftrightarrow> verdict r = Some ACCEPTED)
           \<and> exit_code r = (if verdict r = Some ACCEPTED then 0 else 1)"
proof -
  from batch_result_shape [OF assms] obtain feo rs out err code v where
    sm: "summarise feo rs = (out, err, code, v)"
    and r: "r = \<lparr>stdout = out, stderr = err, exit_code = code, duration_ms = elapsed_ms en,
                 test_results = Some rs, verdict = Some v\<rparr>"
    by blast
  from summarise_fields [OF sm] r ACCEPTED_neq_WRONG_ANSWER show ?thesis by auto
qed

theorem exit_code_zero_iff_accepted_witness:
  "\<exists>r w'. execute_code calm_env hello_request world0 = (Inr r, w')
      \<and> test_cases hello_request = Some hello_tests \<and> hello_tests \<noteq> []
      \<and> (exit_code r = 0 \<longleftrightarrow> verdict r = Some ACCEPTED)
      \<and> exit_code r = (if verdict r = Some ACCEPTED then 0 else 1)"
proof -
  obtain r w' where e: "execute_code calm_env hello_request world0 = (Inr r, w')"
    by (rule hello_result)
  have t: "test_cases hello_request = Some hello_tests" by (simp add: hello_request_def)
  have n: "hello_tests \<noteq> []" by (simp add: hello_tests_def)
  from exit_code_zero_iff_accepted [OF e t n] e t n show ?thesis by blast
qed

section \<open>Passing a test\<close>

text \<open>
  C2. In batch mode, when the run of test \<open>i\<close> comes back with exit code \<open>c\<close> and
  stdout \<open>out\<close>, the test result \<open>i\<close> of a returned result has \<open>passed\<close> exactly when
  \<open>c\<close> is 0 and the stripped \<open>out\<close> equals the stripped expected output of the test
  case; it records \<open>c\<close> as the test's exit code.
\<close>

theorem passed_iff_exit_zero_and_output_matches:
  assumes "execute_code en req w = (Inr r, w')"
    and "test_cases req = Some tcs"
    and "resolve_language (files req) (language req) = Inr (lang, main, config)"
    and "i < length tcs"
    and "test_exec en lang main (timeout req) i (tcs ! i) = Some (Returned c out err)"
  shows "\<exists>rs. test_results r = Some rs \<and> length rs = length tcs
           \<and> (passed (rs ! i) \<longleftrightarrow> c = 0 \<and> strip out = strip (tc_output (tcs ! i)))
           \<and> tr_exit_code (rs ! i) = c
           \<and> expected_output (rs ! i) = strip (tc_output (tcs ! i))"
proof -
  from batch_test_result [OF assms(1-4)] assms(5) obtain rs where
    "test_results r = Some rs" "length rs = length tcs"
    "rs ! i = make_test_result i (tcs ! i) c out err (test_elapsed_ms en i)"
    by auto
  then show ?thesis by (simp add: make_test_result_sel)
qed

theorem passed_iff_exit_zero_and_output_matches_witness:
  "\<exists>r w' rs config.
      execute_code calm_env echo_request world0 = (Inr r, w')
      \<and> test_cases echo_request = Some echo_tests
      \<and> resolve_language (files echo_request) (language echo_request)
          = Inr (str ''python'', str ''main.py'', config)
      \<and> 1 < length echo_tests
      \<and> test_exec calm_env (str ''python'') (str ''main.py'') 30 1 (echo_tests ! 1)
          = Some (Returned 0 (str ''hello'' @ [10]) [])
      \<and> test_results r = Some rs
      \<and> (passed (rs ! 1) \<longleftrightarrow> (0::int) = 0 \<and> strip (str ''hello'' @ [10]) = strip (tc_output (echo_tests ! 1)))
      \<and> \<not> passed (rs ! 1) \<and> tr_exit_code (rs ! 1) = 0"
proof -
  obtain r w' where e: "execute_code calm_env echo_request world0 = (Inr r, w')"
    by (rule echo_result)
  have t: "test_cases echo_request = Some echo_tests" by (simp add: echo_request_def)
  have i: "1 < length echo_tests" by (simp add: echo_tests_def)
  have tm: "timeout echo_request = 30" by (simp add: echo_request_def)
  have x: "test_exec calm_env (str ''python'') (str ''main.py'') (timeout echo_request) 1
             (echo_tests ! 1)
             = Some (Returned 0 (str ''hello'' @ [10]) [])"
    by (simp add: evaluation)
  have d: "strip (str ''hello'' @ [10]) \<noteq> strip (tc_output (echo_tests ! 1))"
    by (simp add: evaluation)
  from passed_iff_exit_zero_and_output_matches [OF e t echo_resolves i x] e t i x d echo_resolves
  show ?thesis unfolding tm by auto
qed

section \<open>More on the loop: the first stderr, completion, effects\<close>

lemma strip_Nil [simp]: "strip [] = []"
  by (simp add: strip_def)

lemma next_first_error_kept: "feo \<noteq> [] \<Longrightarrow> next_first_error feo err = feo"
  by (simp add: next_first_error_def)

lemma next_first_error_Nil: "next_first_error [] err = strip err"
  by (simp add: next_first_error_def)

lemma run_tests_first_error_kept:
  "run_tests en runner t off idx tcs feo rs w = (Inr (feo', rs'), w') \<Longrightarrow> feo \<noteq> [] \<Longrightarrow> feo' = feo"
proof (induction tcs arbitrary: idx feo rs w)
  case Nil
  then show ?case by simp
next
  case (Cons tc tcs)
  from Cons.prems(1) obtain bytes c out err where
    rest: "run_tests en runner t off (Suc idx) tcs (next_first_error feo err)
             (rs @ [make_test_result idx tc c out err (test_elapsed_ms en idx)])
             (snd (exec_in_container en (off + idx) (test_command (b64encode bytes) runner) t w))
           = (Inr (feo', rs'), w')"
    by (rule run_tests_Cons_Inr)
  from Cons.prems(2) have "next_first_error feo err = feo" by (rule next_first_error_kept)
  with Cons.IH [OF rest] Cons.prems(2) show ?case by simp
qed

lemma run_tests_first_error:
  "run_tests en runner t off idx tcs [] rs w = (Inr (feo', rs'), w') \<Longrightarrow> i < length tcs \<Longrightarrow>
     \<forall>j<i. stderr_of t (exec_of en runner t (off + idx + j) (tcs ! j)) = [] \<Longrightarrow>
     stderr_of t (exec_of en runner t (off + idx + i) (tcs ! i)) \<noteq> [] \<Longrightarrow>
     feo' = stderr_of t (exec_of en runner t (off + idx + i) (tcs ! i))"
proof (induction tcs arbitrary: idx rs w i)
  case Nil
  then show ?case by simp
next
  case (Cons tc tcs)
  from Cons.prems(1) obtain bytes c out err where
    enc: "utf8_encode (tc_input tc) = Inr bytes"
    and oc: "test_outcome t (run_outcome en (off + idx) (test_command (b64encode bytes) runner) t)
               = Inr (c, out, err)"
    and rest: "run_tests en runner t off (Suc idx) tcs (next_first_error [] err)
                 (rs @ [make_test_result idx tc c out err (test_elapsed_ms en idx)])
                 (snd (exec_in_container en (off + idx) (test_command (b64encode bytes) runner) t w))
           = (Inr (feo', rs'), w')"
    by (rule run_tests_Cons_Inr)
  from enc oc have here: "stderr_of t (exec_of en runner t (off + idx) tc) = strip err"
    by (simp add: stderr_of_def exec_of_def)
  show ?case
  proof (cases i)
    case 0
    with Cons.prems(4) here have ne: "strip err \<noteq> []" by simp
    then have "next_first_error [] err \<noteq> []" by (simp add: next_first_error_Nil)
    from run_tests_first_error_kept [OF rest this] have "feo' = strip err"
      by (simp add: next_first_error_Nil)
    with 0 here show ?thesis by simp
  next
    case (Suc k)
    from Cons.prems(3) Suc have "stderr_of t (exec_of en runner t (off + idx + 0) ((tc # tcs) ! 0)) = []"
      by blast
    with here have "strip err = []" by simp
    then have nfe: "next_first_error [] err = []" by (simp add: next_first_error_Nil)
    from Suc Cons.prems(2) have k: "k < length tcs" by simp
    from Cons.prems(3) Suc have prev:
      "\<forall>j<k. stderr_of t (exec_of en runner t (off + Suc idx + j) (tcs ! j)) = []"
      by (auto dest: spec [of _ "Suc _"])
    from Cons.prems(4) Suc have cur:
      "stderr_of t (exec_of en runner t (off + Suc idx + k) (tcs ! k)) \<noteq> []" by simp
    from Cons.IH [OF rest [unfolded nfe] k prev cur] Suc show ?thesis by simp
  qed
qed

lemma answers_cases:
  assumes "answers (exec_of en runner t k tc)"
  obtains bytes c out err where "utf8_encode (tc_input tc) = Inr bytes"
    "test_outcome t (run_outcome en k (test_command (b64encode bytes) runner) t) = Inr (c, out, err)"
  using assms
  by (auto simp: answers_def exec_of_def split: sum.splits exec_outcome.splits exc.splits)

lemma run_tests_total:
  "\<forall>j<length tcs. answers (exec_of en runner t (off + idx + j) (tcs ! j)) \<Longrightarrow>
     \<exists>feo' rs'. run_tests en runner t off idx tcs feo rs w
        = (Inr (feo', rs'), w\<lparr>trace := trace w @ test_events en runner t (off + idx) tcs\<rparr>)"
proof (induction tcs arbitrary: idx feo rs w)
  case Nil
  then show ?case by simp
next
  case (Cons tc tcs)
  let ?cmd = "\<lambda>bytes. test_command (b64encode bytes) runner"
  from Cons.prems have "answers (exec_of en runner t (off + idx) tc)" by fastforce
  then obtain bytes c out err where
    enc: "utf8_encode (tc_input tc) = Inr bytes"
    and oc: "test_outcome t (run_outcome en (off + idx) (?cmd bytes) t) = Inr (c, out, err)"
    by (rule answers_cases)
  define w1 where "w1 = snd (exec_in_container en (off + idx) (?cmd bytes) t w)"
  have ex: "exec_in_container en (off + idx) (?cmd bytes) t w
              = (run_outcome en (off + idx) (?cmd bytes) t, w1)"
    by (simp add: w1_def exec_in_container_def split: exec_outcome.splits)
  have w1: "w1 = w\<lparr>trace := trace w
                @ (if run_outcome en (off + idx) (?cmd bytes) t = NotStarted then []
                   else [ExecRun (?cmd bytes) t])\<rparr>"
    by (simp add: w1_def exec_in_container_snd log_def)
  from Cons.prems have "\<forall>j<length tcs. answers (exec_of en runner t (off + Suc idx + j) (tcs ! j))"
    by (auto dest: spec [of _ "Suc _"])
  from Cons.IH [OF this, of "next_first_error feo err"
      "rs @ [make_test_result idx tc c out err (test_elapsed_ms en idx)]" w1]
  obtain feo' rs' where
    "run_tests en runner t off (Suc idx) tcs (next_first_error feo err)
       (rs @ [make_test_result idx tc c out err (test_elapsed_ms en idx)]) w1
     = (Inr (feo', rs'), w1\<lparr>trace := trace w1 @ test_events en runner t (off + Suc idx) tcs\<rparr>)"
    by blast
  with enc oc ex show ?case
    by (simp add: w1)
qed

lemma length_filter_upt_Suc:
  "length (filter P [0..<Suc n])
     = (if P 0 then 1 else 0) + length (filter (\<lambda>j. P (Suc j)) [0..<n])"
  by (simp add: upt_conv_Cons map_Suc_upt [symmetric] filter_map o_def del: upt_Suc)

lemma test_events_started:
  "\<forall>j<length tcs. answers (exec_of en runner t (k + j) (tcs ! j)) \<Longrightarrow>
     length (test_events en runner t k tcs)
       = length (filter (\<lambda>j. exec_of en runner t (k + j) (tcs ! j) \<noteq> Some NotStarted)
                   [0..<length tcs])"
proof (induction tcs arbitrary: k)
  case Nil
  then show ?case by simp
next
  case (Cons tc tcs)
  from Cons.prems have "answers (exec_of en runner t k tc)" by fastforce
  then obtain bytes c out err where
    enc: "utf8_encode (tc_input tc) = Inr bytes"
    and oc: "test_outcome t (run_outcome en k (test_command (b64encode bytes) runner) t)
               = Inr (c, out, err)"
    by (rule answers_cases)
  from enc have here: "exec_of en runner t k tc
      = Some (run_outcome en k (test_command (b64encode bytes) runner) t)"
    by (simp add: exec_of_def)
  from Cons.prems have "\<forall>j<length tcs. answers (exec_of en runner t (Suc k + j) (tcs ! j))"
    by (auto dest: spec [of _ "Suc _"])
  from Cons.IH [OF this] enc oc here show ?case
    by (simp add: length_filter_upt_Suc del: upt_Suc)
qed

lemma write_files_ready:
  "list_all (\<lambda>(filepath, content). write_file en filepath content = None) fs \<Longrightarrow>
     write_files en fs w = (None, w\<lparr>trace := trace w @ map (\<lambda>(p, c). WriteFile p c) fs\<rparr>)"
  by (induction fs arbitrary: w) (auto simp: log_def)

section \<open>A batch that completes\<close>

lemma compile_step_returns:
  "build_returns en lang main t \<Longrightarrow>
     compile_step en lang main t w = (None, w\<lparr>trace := trace w @ build_events lang main t\<rparr>)"
  by (auto simp: build_returns_def compile_step_def build_events_def exec_in_container_def log_def
      split: option.splits exec_outcome.splits)

lemma batch_total:
  assumes tcs: "test_cases req = Some tcs" and ne: "tcs \<noteq> []"
    and ws: "workspace_ready en req"
    and res: "resolve_language (files req) (language req) = Inr (lang, main, config)"
    and cr: "container_ready en"
    and br: "build_returns en lang main (timeout req)"
    and rm: "removal_returns en"
    and an: "\<forall>j<length tcs. answers (test_exec en lang main (timeout req) j (tcs ! j))"
  shows "\<exists>r. execute_code en req w
           = (Inr r,
              w\<lparr>tmpdir_exists := (rmtree en = Kept),
                trace := trace w @ [MakeDirs] @ map (\<lambda>(p, c). WriteFile p c) (files req)
                  @ [ContainerCreate (image config)
                       (str ''/bin/sh -c '' @ [34] @ str ''sleep 3600'' @ [34])
                       (lang \<noteq> str ''typescript''),
                     ContainerStart, PutArchive]
                  @ build_events lang main (timeout req)
                  @ test_events en (runner_command lang main) (timeout req) (first_test_call lang main) tcs
                  @ remove_events en @ [RmTree]\<rparr>)"
proof -
  from ne obtain tc rest where tcs': "tcs = tc # rest" by (cases tcs) auto
  from ws have mk: "makedirs_base en = None" "makedirs_tmpdir en = None"
    and wf: "list_all (\<lambda>(filepath, content). write_file en filepath content = None) (files req)"
    by (simp_all add: workspace_ready_def)
  from cr have c: "containers_create en = None" "container_start en = None" "put_archive en = None"
    by (simp_all add: container_ready_def)
  from an have an': "\<forall>j<length tcs. answers (exec_of en (runner_command lang main) (timeout req)
                        (first_test_call lang main + 0 + j) (tcs ! j))"
    by (simp add: test_exec_def)
  define w1 where "w1 = log MakeDirs (w\<lparr>tmpdir_exists := True\<rparr>)"
  define w2 where "w2 = w1\<lparr>trace := trace w1 @ map (\<lambda>(p, c). WriteFile p c) (files req)\<rparr>"
  define w3 where "w3 = log PutArchive (log ContainerStart (log (ContainerCreate (image config)
                       (str ''/bin/sh -c '' @ [34] @ str ''sleep 3600'' @ [34])
                       (lang \<noteq> str ''typescript'')) w2))"
  define w4 where "w4 = w3\<lparr>trace := trace w3 @ build_events lang main (timeout req)\<rparr>"
  define w5 where "w5 = w4\<lparr>trace := trace w4 @ test_events en (runner_command lang main) (timeout req) (first_test_call lang main) tcs\<rparr>"
  have a: "write_files en (files req) w1 = (None, w2)"
    unfolding w2_def by (rule write_files_ready [OF wf])
  have b: "compile_step en lang main (timeout req) w3 = (None, w4)"
    unfolding w4_def by (rule compile_step_returns [OF br])
  from run_tests_total [OF an', of "[]" "[]" w4] obtain feo rs where
    run: "run_tests en (runner_command lang main) (timeout req) (first_test_call lang main) 0
            tcs [] [] w4 = (Inr (feo, rs), w5)"
    unfolding w5_def by auto
  have bt: "batch_try en config lang main (timeout req) tcs w2
              = (Inr (summarise feo rs, rs), True, w5)"
    using c b run by (simp add: batch_try_def w3_def Let_def)
  have br: "batch_run en config lang main (timeout req) tcs w2
              = (Inr (summarise feo rs, rs), finally_remove en True w5)"
    using bt by (simp add: batch_run_def)
  obtain so se code v where sm: "summarise feo rs = (so, se, code, v)"
    by (cases "summarise feo rs") auto
  have body: "execute_body en req w1
     = (Inr \<lparr>stdout = so, stderr = se, exit_code = code, duration_ms = elapsed_ms en,
             test_results = Some rs, verdict = Some v\<rparr>, finally_remove en True w5)"
    using a res tcs br sm unfolding tcs' by (simp add: execute_body_def)
  have fin: "finally_remove en True w5 = w5\<lparr>trace := trace w5 @ remove_events en\<rparr>"
    by (simp add: finally_remove_def remove_events_def log_def split: option.splits)
  have ex: "tmpdir_exists (w5\<lparr>trace := trace w5 @ remove_events en\<rparr>)"
    by (simp add: w5_def w4_def w3_def w2_def w1_def log_def)
  have "execute_code en req w
     = (Inr \<lparr>stdout = so, stderr = se, exit_code = code, duration_ms = elapsed_ms en,
             test_results = Some rs, verdict = Some v\<rparr>,
        log RmTree (if rmtree en = Removed
                    then (w5\<lparr>trace := trace w5 @ remove_events en\<rparr>)\<lparr>tmpdir_exists := False\<rparr>
                    else w5\<lparr>trace := trace w5 @ remove_events en\<rparr>))"
    using mk body fin ex rm
    by (cases "rmtree en"; simp add: execute_code_def w1_def [symmetric] removal_returns_def)
  then show ?thesis using rm
    by (cases "rmtree en"; simp add: w5_def w4_def w3_def w2_def w1_def log_def
          removal_returns_def)
qed

lemma write_files_env_cong:
  "write_file en = write_file en' \<Longrightarrow> write_files en fs w = write_files en' fs w"
  by (induction fs arbitrary: w) (auto split: option.splits)

lemma run_tests_env_cong:
  "\<forall>k\<ge>off + idx. exec_run en k = exec_run en' k \<Longrightarrow> test_elapsed_ms en = test_elapsed_ms en' \<Longrightarrow>
     run_tests en runner t off idx tcs feo rs w = run_tests en' runner t off idx tcs feo rs w"
proof (induction tcs arbitrary: idx feo rs w)
  case Nil
  then show ?case by simp
next
  case (Cons tc tcs)
  from Cons.prems(1) have here: "exec_run en (off + idx) = exec_run en' (off + idx)" by simp
  from Cons.prems(1) have "\<forall>k\<ge>off + Suc idx. exec_run en k = exec_run en' k" by simp
  from Cons.IH [OF this Cons.prems(2)] here Cons.prems(2) show ?case
    by (simp add: exec_in_container_def run_outcome_def split: sum.splits prod.splits)
qed


lemma build_ignored:
  assumes tcs: "test_cases req = Some tcs" and ne: "tcs \<noteq> []"
    and res: "resolve_language (files req) (language req) = Inr (lang, main, config)"
    and cc: "compile_command lang main = Some cmd"
    and ex: "run_outcome en 0 cmd (timeout req) = Returned c out err"
  shows "execute_code en req w
           = execute_code (en\<lparr>exec_run := (exec_run en)(0 := \<lambda>command. Returned 0 [] [])\<rparr>) req w"
proof -
  define en' where "en' = en\<lparr>exec_run := (exec_run en)(0 := \<lambda>command. Returned 0 [] [])\<rparr>"
  have fields:
    "makedirs_base en' = makedirs_base en" "makedirs_tmpdir en' = makedirs_tmpdir en"
    "containers_create en' = containers_create en" "container_start en' = container_start en"
    "put_archive en' = put_archive en" "container_remove en' = container_remove en"
    "elapsed_ms en' = elapsed_ms en" "rmtree en' = rmtree en"
    by (simp_all add: en'_def)
  have wf: "write_files en' (files req) = write_files en (files req)"
    by (rule ext, rule write_files_env_cong) (simp add: en'_def)
  from cc have off: "first_test_call lang main = 1" by (simp add: first_test_call_def)
  have rt: "run_tests en' (runner_command lang main) (timeout req) (first_test_call lang main) 0
              tcs [] []
            = run_tests en (runner_command lang main) (timeout req) (first_test_call lang main) 0
              tcs [] []"
    unfolding off by (rule ext, rule run_tests_env_cong) (simp_all add: en'_def)
  have cs: "compile_step en' lang main (timeout req) = compile_step en lang main (timeout req)"
    using cc ex
    by (auto simp: compile_step_def exec_in_container_def run_outcome_def en'_def
        split: if_splits)
  have bt: "batch_try en' config lang main (timeout req) tcs
              = batch_try en config lang main (timeout req) tcs"
    by (rule ext) (unfold batch_try_def fields cs rt, rule refl)
  have br: "batch_run en' config lang main (timeout req) tcs
              = batch_run en config lang main (timeout req) tcs"
    by (rule ext) (unfold batch_run_def finally_remove_def bt fields, rule refl)
  from ne obtain tc rest where tcs': "tcs = tc # rest" by (cases tcs) auto
  have body: "execute_body en' req = execute_body en req"
    by (rule ext)
       (simp add: execute_body_def wf res tcs tcs' br [unfolded tcs'] fields
          split: prod.splits option.splits sum.splits)
  have "execute_code en' req w = execute_code en req w"
    by (unfold execute_code_def body fields, rule refl)
  then show ?thesis
    by (simp add: en'_def)
qed




lemma batch_completes:
  assumes tcs: "test_cases req = Some tcs" and ne: "tcs \<noteq> []"
    and ws: "workspace_ready en req"
    and res: "resolve_language (files req) (language req) = Inr (lang, main, config)"
    and cr: "container_ready en"
    and br: "build_returns en lang main (timeout req)"
    and rm: "removal_returns en"
    and an: "\<forall>j<length tcs. answers (test_exec en lang main (timeout req) j (tcs ! j))"
  shows "\<exists>r w' pre post.
           execute_code en req w = (Inr r, w')
           \<and> trace w' = trace w @ pre @ build_events lang main (timeout req)
                 @ test_events en (runner_command lang main) (timeout req)
                     (first_test_call lang main) tcs @ post
           \<and> length (test_events en (runner_command lang main) (timeout req)
                        (first_test_call lang main) tcs)
               = length (started_tests en lang main (timeout req) tcs)"
proof -
  let ?pre = "[MakeDirs] @ map (\<lambda>(p, c). WriteFile p c) (files req)
                  @ [ContainerCreate (image config)
                       (str ''/bin/sh -c '' @ [34] @ str ''sleep 3600'' @ [34])
                       (lang \<noteq> str ''typescript''),
                     ContainerStart, PutArchive]"
  let ?ev = "test_events en (runner_command lang main) (timeout req) (first_test_call lang main) tcs"
  from batch_total [OF assms, of w] obtain r w' where
    e: "execute_code en req w = (Inr r, w')"
    and w': "w' = w\<lparr>tmpdir_exists := (rmtree en = Kept),
                trace := trace w @ ?pre @ build_events lang main (timeout req) @ ?ev
                  @ remove_events en @ [RmTree]\<rparr>"
    by auto
  from w' have "trace w' = trace w @ ?pre @ build_events lang main (timeout req) @ ?ev
                  @ (remove_events en @ [RmTree])"
    by simp
  moreover from an have "length ?ev = length (started_tests en lang main (timeout req) tcs)"
    unfolding test_exec_def started_tests_def by (rule test_events_started)
  ultimately show ?thesis using e by blast
qed

section \<open>A test that passes its deadline\<close>








section \<open>The stderr of a test\<close>

lemma batch_stderr:
  assumes ex: "execute_code en req w = (Inr r, w')"
    and tcs: "test_cases req = Some tcs"
    and res: "resolve_language (files req) (language req) = Inr (lang, main, config)"
    and i: "i < length tcs"
    and first: "\<forall>j<i. stderr_of (timeout req) (test_exec en lang main (timeout req) j (tcs ! j)) = []"
    and cap: "stderr_of (timeout req) (test_exec en lang main (timeout req) i (tcs ! i)) \<noteq> []"
  shows "\<exists>rs. test_results r = Some rs
           \<and> stderr r = (if \<forall>tr\<in>set rs. passed tr then []
                          else stderr_of (timeout req) (test_exec en lang main (timeout req) i (tcs ! i)))"
proof -
  from i have ne: "tcs \<noteq> []" by auto
  from batch_result_shape [OF ex tcs ne] res obtain feo rs wa wb so se code v where
    run: "run_tests en (runner_command lang main) (timeout req) (first_test_call lang main) 0
            tcs [] [] wa = (Inr (feo, rs), wb)"
    and sm: "summarise feo rs = (so, se, code, v)"
    and r: "r = \<lparr>stdout = so, stderr = se, exit_code = code, duration_ms = elapsed_ms en,
                 test_results = Some rs, verdict = Some v\<rparr>"
    by auto
  from first have first': "\<forall>j<i. stderr_of (timeout req)
      (exec_of en (runner_command lang main) (timeout req) (first_test_call lang main + 0 + j) (tcs ! j)) = []"
    by (simp add: test_exec_def)
  from cap have cap': "stderr_of (timeout req)
      (exec_of en (runner_command lang main) (timeout req) (first_test_call lang main + 0 + i) (tcs ! i)) \<noteq> []"
    by (simp add: test_exec_def)
  from run_tests_first_error [OF run i first' cap']
  have feo: "feo = stderr_of (timeout req) (test_exec en lang main (timeout req) i (tcs ! i))"
    by (simp add: test_exec_def)
  from summarise_fields [OF sm] feo cap r show ?thesis by auto
qed

text \<open>
  C9, as the code has it. In batch mode, when the run of test \<open>i\<close> leaves a non-blank
  stderr (the timeout message of a run that passed its deadline counts), the actual
  output of test result \<open>i\<close> is the stripped stdout, a newline, the error label and the
  stripped stderr, or the label and the stderr alone when the stdout is blank. If no
  earlier test left a non-blank stderr, the stderr of the returned result is that
  stripped stderr when some test has not passed, and empty when every test has passed.
\<close>

theorem stderr_is_appended_and_first_kept_on_failure:
  assumes ex: "execute_code en req w = (Inr r, w')"
    and tcs: "test_cases req = Some tcs"
    and res: "resolve_language (files req) (language req) = Inr (lang, main, config)"
    and i: "i < length tcs"
    and cap: "stderr_of (timeout req) (test_exec en lang main (timeout req) i (tcs ! i)) \<noteq> []"
  shows "\<exists>rs. test_results r = Some rs \<and> length rs = length tcs
           \<and> actual_output (rs ! i)
               = (if stdout_of (timeout req) (test_exec en lang main (timeout req) i (tcs ! i)) = []
                  then error_label @ stderr_of (timeout req) (test_exec en lang main (timeout req) i (tcs ! i))
                  else stdout_of (timeout req) (test_exec en lang main (timeout req) i (tcs ! i)) @ [10]
                       @ error_label @ stderr_of (timeout req) (test_exec en lang main (timeout req) i (tcs ! i)))
           \<and> ((\<forall>j<i. stderr_of (timeout req) (test_exec en lang main (timeout req) j (tcs ! j)) = [])
                \<longrightarrow> stderr r = (if \<forall>tr\<in>set rs. passed tr then []
                     else stderr_of (timeout req) (test_exec en lang main (timeout req) i (tcs ! i))))"
proof -
  from batch_test_result [OF ex tcs res i] obtain rs oc c out err where
    rs: "test_results r = Some rs" "length rs = length tcs"
    and oc: "test_exec en lang main (timeout req) i (tcs ! i) = Some oc"
      "test_outcome (timeout req) oc = Inr (c, out, err)"
    and ri: "rs ! i = make_test_result i (tcs ! i) c out err (test_elapsed_ms en i)"
    by blast
  from oc have e: "stderr_of (timeout req) (test_exec en lang main (timeout req) i (tcs ! i)) = strip err"
    and o: "stdout_of (timeout req) (test_exec en lang main (timeout req) i (tcs ! i)) = strip out"
    by (simp_all add: stderr_of_def stdout_of_def)
  from cap e have ne: "strip err \<noteq> []" by simp
  from ri ne have ao: "actual_output (rs ! i)
      = (if strip out = [] then error_label @ strip err
         else strip out @ [10] @ error_label @ strip err)"
    by (simp add: make_test_result_sel)
  have "(\<forall>j<i. stderr_of (timeout req) (test_exec en lang main (timeout req) j (tcs ! j)) = [])
          \<longrightarrow> stderr r = (if \<forall>tr\<in>set rs. passed tr then []
                else stderr_of (timeout req) (test_exec en lang main (timeout req) i (tcs ! i)))"
  proof
    assume "\<forall>j<i. stderr_of (timeout req) (test_exec en lang main (timeout req) j (tcs ! j)) = []"
    from batch_stderr [OF ex tcs res i this cap] rs(1)
    show "stderr r = (if \<forall>tr\<in>set rs. passed tr then []
                else stderr_of (timeout req) (test_exec en lang main (timeout req) i (tcs ! i)))"
      by auto
  qed
  with rs ao e o show ?thesis by auto
qed

text \<open>
  The claim as the specification states it fails: a test that passes while writing a
  warning to stderr leaves the stderr of the result empty.
\<close>

theorem stderr_of_passing_batch_is_dropped:
  "\<not> isl (fst (execute_code noisy_env hello_request world0))
   \<and> stderr_of (timeout hello_request)
        (test_exec noisy_env (str ''python'') (str ''main.py'') (timeout hello_request) 0
           (hello_tests ! 0))
        = str ''DeprecationWarning''
   \<and> verdict (projr (fst (execute_code noisy_env hello_request world0))) = Some ACCEPTED
   \<and> stderr (projr (fst (execute_code noisy_env hello_request world0))) = []"
  by (simp add: evaluation)

lemma noisy_echo_returns: "\<not> isl (fst (execute_code noisy_env echo_request world0))"
  by (simp add: evaluation)

lemma noisy_echo_result:
  obtains r w' where "execute_code noisy_env echo_request world0 = (Inr r, w')"
  using noisy_echo_returns
  by (cases "execute_code noisy_env echo_request world0";
      cases "fst (execute_code noisy_env echo_request world0)") auto

theorem stderr_is_appended_and_first_kept_on_failure_witness:
  "\<exists>r w' rs.
      execute_code noisy_env echo_request world0 = (Inr r, w')
      \<and> stderr_of 30 (test_exec noisy_env (str ''python'') (str ''main.py'') 30 0 (echo_tests ! 0))
           = str ''DeprecationWarning''
      \<and> test_results r = Some rs \<and> length rs = 2
      \<and> actual_output (rs ! 0) = str ''hello'' @ [10] @ error_label @ str ''DeprecationWarning''
      \<and> stderr r = (if \<forall>tr\<in>set rs. passed tr then [] else str ''DeprecationWarning'')"
proof -
  obtain r w' where e: "execute_code noisy_env echo_request world0 = (Inr r, w')"
    by (rule noisy_echo_result)
  have t: "test_cases echo_request = Some echo_tests" by (simp add: echo_request_def)
  have i: "0 < length echo_tests" by (simp add: echo_tests_def)
  have facts: "timeout echo_request = 30" "length echo_tests = 2"
    "stderr_of 30 (test_exec noisy_env (str ''python'') (str ''main.py'') 30 0 (echo_tests ! 0))
       = str ''DeprecationWarning''"
    "stdout_of 30 (test_exec noisy_env (str ''python'') (str ''main.py'') 30 0 (echo_tests ! 0))
       = str ''hello''"
    by (simp_all add: evaluation)
  have cap: "stderr_of (timeout echo_request)
               (test_exec noisy_env (str ''python'') (str ''main.py'') (timeout echo_request) 0
                  (echo_tests ! 0)) \<noteq> []"
    unfolding facts by (simp add: str_def)
  have ne: "str ''hello'' \<noteq> []" by (simp add: str_def)
  from stderr_is_appended_and_first_kept_on_failure [OF e t echo_resolves i cap]
  obtain rs where "test_results r = Some rs" "length rs = 2"
    "actual_output (rs ! 0) = str ''hello'' @ [10] @ error_label @ str ''DeprecationWarning''"
    "stderr r = (if \<forall>tr\<in>set rs. passed tr then [] else str ''DeprecationWarning'')"
    unfolding facts using ne by auto
  with e facts(3) show ?thesis by blast
qed

section \<open>The build step\<close>

text \<open>
  C10, as the code has it. In batch mode for TypeScript, Java or Go, when the build
  command comes back, whatever its exit code and output, the call does exactly what it
  does when the build command exits with 0 and prints nothing: the same result or
  exception and the same effects, so that nothing of the build's outcome is in the
  result. If moreover the workspace and the container are set up, the workspace removal
  does not raise, and the run of every test comes back, passes its deadline or does not
  start, the call returns one test result per test case; the build command was run, and
  after it the commands of the tests whose run started, in order; and a test whose run
  comes back has passed exactly when that run exited with 0 and its stripped stdout is
  the stripped expected output. So a test after a failed build fails or passes by what
  its own run gives.
\<close>

theorem build_failure_is_discarded:
  assumes tcs: "test_cases req = Some tcs" and ne: "tcs \<noteq> []"
    and res: "resolve_language (files req) (language req) = Inr (lang, main, config)"
    and lang: "lang \<in> {str ''typescript'', str ''java'', str ''go''}"
    and cc: "compile_command lang main = Some cmd"
    and ex: "run_outcome en 0 cmd (timeout req) = Returned c out err"
  shows "execute_code en req w
           = execute_code (en\<lparr>exec_run := (exec_run en)(0 := \<lambda>command. Returned 0 [] [])\<rparr>) req w
         \<and> (workspace_ready en req \<and> container_ready en \<and> removal_returns en
              \<and> (\<forall>j<length tcs. answers (test_exec en lang main (timeout req) j (tcs ! j)))
            \<longrightarrow> (\<exists>r w' rs pre post.
                   execute_code en req w = (Inr r, w')
                   \<and> test_results r = Some rs \<and> length rs = length tcs
                   \<and> (\<forall>j<length tcs. \<forall>cj oj ej.
                          test_exec en lang main (timeout req) j (tcs ! j)
                            = Some (Returned cj oj ej)
                          \<longrightarrow> (passed (rs ! j)
                                 \<longleftrightarrow> cj = 0 \<and> strip oj = strip (tc_output (tcs ! j))))
                   \<and> trace w' = trace w @ pre @ [ExecRun cmd (timeout req)]
                        @ test_events en (runner_command lang main) (timeout req)
                            (first_test_call lang main) tcs @ post
                   \<and> length (test_events en (runner_command lang main) (timeout req)
                                (first_test_call lang main) tcs)
                        = length (started_tests en lang main (timeout req) tcs)))"
proof (intro conjI impI)
  show "execute_code en req w
          = execute_code (en\<lparr>exec_run := (exec_run en)(0 := \<lambda>command. Returned 0 [] [])\<rparr>) req w"
    by (rule build_ignored [OF tcs ne res cc ex])
next
  let ?ev = "test_events en (runner_command lang main) (timeout req) (first_test_call lang main) tcs"
  assume a: "workspace_ready en req \<and> container_ready en \<and> removal_returns en
              \<and> (\<forall>j<length tcs. answers (test_exec en lang main (timeout req) j (tcs ! j)))"
  from cc ex have br: "build_returns en lang main (timeout req)" by (simp add: build_returns_def)
  from cc have be: "build_events lang main (timeout req) = [ExecRun cmd (timeout req)]"
    by (simp add: build_events_def)
  from a have ws: "workspace_ready en req" and cr: "container_ready en"
    and rm: "removal_returns en"
    and an: "\<forall>j<length tcs. answers (test_exec en lang main (timeout req) j (tcs ! j))"
    by simp_all
  from batch_completes [OF tcs ne ws res cr br rm an, of w] obtain r w' pre post where
    e: "execute_code en req w = (Inr r, w')"
    and tr: "trace w' = trace w @ pre @ [ExecRun cmd (timeout req)] @ ?ev @ post"
    and len: "length ?ev = length (started_tests en lang main (timeout req) tcs)"
    unfolding be by blast
  from verdict_len [OF e tcs ne] obtain rs where
    rs: "test_results r = Some rs" "length rs = length tcs"
    by blast
  have own: "\<forall>j<length tcs. \<forall>cj oj ej.
               test_exec en lang main (timeout req) j (tcs ! j) = Some (Returned cj oj ej)
               \<longrightarrow> (passed (rs ! j) \<longleftrightarrow> cj = 0 \<and> strip oj = strip (tc_output (tcs ! j)))"
  proof (intro allI impI)
    fix j cj oj ej
    assume j: "j < length tcs"
      and x: "test_exec en lang main (timeout req) j (tcs ! j) = Some (Returned cj oj ej)"
    from batch_test_result [OF e tcs res j] rs(1) x
    have "rs ! j = make_test_result j (tcs ! j) cj oj ej (test_elapsed_ms en j)"
      by auto
    then show "passed (rs ! j) \<longleftrightarrow> cj = 0 \<and> strip oj = strip (tc_output (tcs ! j))"
      by (simp add: make_test_result_sel)
  qed
  from e rs own tr len show "\<exists>r w' rs pre post.
                   execute_code en req w = (Inr r, w')
                   \<and> test_results r = Some rs \<and> length rs = length tcs
                   \<and> (\<forall>j<length tcs. \<forall>cj oj ej.
                          test_exec en lang main (timeout req) j (tcs ! j)
                            = Some (Returned cj oj ej)
                          \<longrightarrow> (passed (rs ! j)
                                 \<longleftrightarrow> cj = 0 \<and> strip oj = strip (tc_output (tcs ! j))))
                   \<and> trace w' = trace w @ pre @ [ExecRun cmd (timeout req)] @ ?ev @ post
                   \<and> length ?ev = length (started_tests en lang main (timeout req) tcs)"
    by blast
qed

lemma go_resolves:
  "resolve_language (files go_request) (language go_request)
     = Inr (str ''go'', str ''main.go'',
            \<lparr>image = str ''golang:1.23-alpine'', main_file = str ''main.go'', setup_command = None\<rparr>)"
  by (simp add: evaluation)

lemma broken_answers:
  "\<forall>j<length echo_tests.
     answers (test_exec broken_build_env (str ''go'') (str ''main.go'') (timeout go_request) j
                (echo_tests ! j))"
  by (auto simp: evaluation less_Suc_eq)

theorem build_failure_is_discarded_witness:
  "\<exists>cmd config r w' rs pre post.
      resolve_language (files go_request) (language go_request)
        = Inr (str ''go'', str ''main.go'', config)
      \<and> compile_command (str ''go'') (str ''main.go'') = Some cmd
      \<and> run_outcome broken_build_env 0 cmd 30 = Returned 1 [] (str ''main.go:1:1: syntax error'')
      \<and> test_exec broken_build_env (str ''go'') (str ''main.go'') 30 0 (echo_tests ! 0)
           = Some (Returned 127 [] (str ''sh: ./main_bin: not found''))
      \<and> execute_code broken_build_env go_request world0
          = execute_code
              (broken_build_env\<lparr>exec_run :=
                 (exec_run broken_build_env)(0 := \<lambda>command. Returned 0 [] [])\<rparr>)
              go_request world0
      \<and> execute_code broken_build_env go_request world0 = (Inr r, w')
      \<and> test_results r = Some rs \<and> length rs = 2
      \<and> \<not> passed (rs ! 0)
      \<and> trace w' = pre @ [ExecRun cmd 30]
           @ test_events broken_build_env (str ''./main_bin'') 30 1 echo_tests @ post
      \<and> length (test_events broken_build_env (str ''./main_bin'') 30 1 echo_tests) = 2"
proof -
  obtain cmd where cc: "compile_command (str ''go'') (str ''main.go'') = Some cmd"
    by (simp add: compile_command_def str_def)
  have tm: "timeout go_request = 30" by (simp add: go_request_def)
  have ex: "run_outcome broken_build_env 0 cmd (timeout go_request)
              = Returned 1 [] (str ''main.go:1:1: syntax error'')"
    by (simp add: run_outcome_def broken_build_env_def calm_env_def go_request_def)
  have t0: "test_exec broken_build_env (str ''go'') (str ''main.go'') 30 0 (echo_tests ! 0)
           = Some (Returned 127 [] (str ''sh: ./main_bin: not found''))"
    by (simp add: evaluation)
  have t: "test_cases go_request = Some echo_tests" by (simp add: go_request_def)
  have n: "echo_tests \<noteq> []" by (simp add: echo_tests_def)
  have l: "str ''go'' \<in> {str ''typescript'', str ''java'', str ''go''}" by simp
  have ws: "workspace_ready broken_build_env go_request" by (simp add: evaluation)
  have cr: "container_ready broken_build_env" by (simp add: evaluation)
  have rm: "removal_returns broken_build_env" by (simp add: evaluation)
  have facts: "length echo_tests = 2" "trace world0 = []"
    "runner_command (str ''go'') (str ''main.go'') = str ''./main_bin''"
    "first_test_call (str ''go'') (str ''main.go'') = 1"
    "length (started_tests broken_build_env (str ''go'') (str ''main.go'') 30 echo_tests) = 2"
    by (simp_all add: evaluation)
  note th = build_failure_is_discarded [OF t n go_resolves l cc ex, of world0]
  from th have eq: "execute_code broken_build_env go_request world0
          = execute_code
              (broken_build_env\<lparr>exec_run :=
                 (exec_run broken_build_env)(0 := \<lambda>command. Returned 0 [] [])\<rparr>)
              go_request world0"
    by (rule conjunct1)
  from th [THEN conjunct2, THEN mp, OF conjI [OF ws conjI [OF cr conjI [OF rm broken_answers]]]]
  obtain r w' rs pre post where
    e: "execute_code broken_build_env go_request world0 = (Inr r, w')"
    and rs: "test_results r = Some rs" "length rs = 2"
    and own: "\<forall>j<2. \<forall>cj oj ej.
                test_exec broken_build_env (str ''go'') (str ''main.go'') 30 j (echo_tests ! j)
                  = Some (Returned cj oj ej)
                \<longrightarrow> (passed (rs ! j)
                       \<longleftrightarrow> cj = 0 \<and> strip oj = strip (tc_output (echo_tests ! j)))"
    and tr: "trace w' = pre @ [ExecRun cmd 30]
           @ test_events broken_build_env (str ''./main_bin'') 30 1 echo_tests @ post"
    and len: "length (test_events broken_build_env (str ''./main_bin'') 30 1 echo_tests) = 2"
    unfolding tm facts append_Nil by blast
  from own [rule_format, of 0, OF _ t0] have np: "\<not> passed (rs ! 0)" by simp
  from ex have ex': "run_outcome broken_build_env 0 cmd 30
                       = Returned 1 [] (str ''main.go:1:1: syntax error'')"
    by (simp add: tm)
  from eq cc ex' t0 go_resolves e rs np tr len show ?thesis by blast
qed

text \<open>
  The claim as the specification states it fails where it says that each test then
  fails: a TypeScript program with a type error, whose build exits with 2 and still
  writes the JavaScript. The only test passes and the verdict is ACCEPTED.
\<close>

theorem test_after_failed_build_passes:
  "map_option (\<lambda>cmd. run_outcome lenient_build_env 0 cmd (timeout ts_request))
      (compile_command (str ''typescript'') (str ''main.ts''))
     = Some (Returned 2 (str ''main.ts(1,5): error TS2322'') [])
   \<and> \<not> isl (fst (execute_code lenient_build_env ts_request world0))
   \<and> map_option (map passed)
        (test_results (projr (fst (execute_code lenient_build_env ts_request world0))))
       = Some [True]
   \<and> verdict (projr (fst (execute_code lenient_build_env ts_request world0))) = Some ACCEPTED"
  by (simp add: evaluation)

section \<open>What the body leaves of the world\<close>


lemma finally_remove_frame:
  "tmpdir_exists (finally_remove en b w) = tmpdir_exists w
   \<and> (\<exists>tr. trace (finally_remove en b w) = trace w @ tr)"
  by (simp add: finally_remove_def log_def split: option.splits)

lemma single_try_frame:
  "tmpdir_exists (snd (snd (single_try en config n command t w))) = tmpdir_exists w
   \<and> (\<exists>tr. trace (snd (snd (single_try en config n command t w))) = trace w @ tr)"
  by (simp add: single_try_def log_def Let_def split: option.splits sum.splits prod.splits)

lemma single_run_frame:
  "tmpdir_exists (snd (single_run en config lang command t w)) = tmpdir_exists w
   \<and> (\<exists>tr. trace (snd (single_run en config lang command t w)) = trace w @ tr)"
proof -
  obtain r b w1 where st: "single_try en config (lang = str ''typescript'') command t w = (r, b, w1)"
    by (metis prod.exhaust)
  from single_try_frame [of en config "lang = str ''typescript''" command t w] st
  have "tmpdir_exists w1 = tmpdir_exists w" "\<exists>tr. trace w1 = trace w @ tr" by simp_all
  with finally_remove_frame [of en b w1] st show ?thesis
    by (auto simp: single_run_def)
qed







section \<open>Single-run mode\<close>

lemma single_shape:
  assumes none: "test_cases req = None \<or> test_cases req = Some []"
    and ws: "workspace_ready en req"
    and res: "resolve_language (files req) (language req) = Inr (lang, main, config)"
    and sr: "\<And>w1. fst (single_run en config lang (run_command lang main) (timeout req) w1)
                    = Inr (out, err, code)"
  shows "fst (execute_code en req w)
           = (case rmtree en of
                RemovalRaised e \<Rightarrow> Inl e
              | _ \<Rightarrow> Inr \<lparr>stdout = out, stderr = err, exit_code = code,
                          duration_ms = elapsed_ms en, test_results = None, verdict = None\<rparr>)"
proof -
  from ws have mk: "makedirs_base en = None" "makedirs_tmpdir en = None"
    and wf: "list_all (\<lambda>(filepath, content). write_file en filepath content = None) (files req)"
    by (simp_all add: workspace_ready_def)
  define w1 where "w1 = log MakeDirs (w\<lparr>tmpdir_exists := True\<rparr>)"
  define w2 where "w2 = w1\<lparr>trace := trace w1 @ map (\<lambda>(p, c). WriteFile p c) (files req)\<rparr>"
  have a: "write_files en (files req) w1 = (None, w2)"
    unfolding w2_def by (rule write_files_ready [OF wf])
  from sr [of w2] obtain w3 where
    sr': "single_run en config lang (run_command lang main) (timeout req) w2
            = (Inr (out, err, code), w3)"
    by (cases "single_run en config lang (run_command lang main) (timeout req) w2") auto
  from single_run_frame [of en config lang "run_command lang main" "timeout req" w2] sr'
  have ex: "tmpdir_exists w3" by (simp add: w2_def w1_def log_def)
  from none have tc: "(case test_cases req of None \<Rightarrow> [] | Some tcs \<Rightarrow> tcs) = []" by auto
  have "execute_body en req w1
          = (Inr \<lparr>stdout = out, stderr = err, exit_code = code, duration_ms = elapsed_ms en,
                  test_results = None, verdict = None\<rparr>, w3)"
    using a res sr' tc by (simp add: execute_body_def)
  then show ?thesis
    using mk ex
    by (cases "rmtree en"; simp add: execute_code_def w1_def [symmetric])
qed

lemma single_run_completes:
  assumes "run_completes en" "container_logs en = Inr (out, err_raw, st)"
  shows "fst (single_run en config lang command t w)
           = Inr (out,
                  if (case st of None \<Rightarrow> 0 | Some c \<Rightarrow> c) \<noteq> 0 \<and> strip err_raw \<noteq> []
                  then err_raw else [],
                  case st of None \<Rightarrow> 0 | Some c \<Rightarrow> c)"
  using assms by (simp add: single_run_def single_try_def run_completes_def Let_def)

text \<open>
  C8. In single-run mode (no test cases), when the workspace is set up and the container
  is created, populated, started and exits in time, the call returns the container's
  exit code and stdout, and its stderr is the captured stderr when the exit code is not
  0 and the captured stderr is not blank, and empty otherwise: a warning written by a
  run that exits with 0 is not returned. This is so whenever the removal of the
  workspace does not raise; when it raises, the call raises its exception instead.
\<close>

theorem stderr_only_on_failure:
  assumes none: "test_cases req = None \<or> test_cases req = Some []"
    and ws: "workspace_ready en req"
    and res: "resolve_language (files req) (language req) = Inr (lang, main, config)"
    and rc: "run_completes en"
    and logs: "container_logs en = Inr (out, err_raw, st)"
  shows "if removal_returns en
         then \<exists>r. fst (execute_code en req w) = Inr r
                \<and> exit_code r = (case st of None \<Rightarrow> 0 | Some c \<Rightarrow> c)
                \<and> stdout r = out
                \<and> stderr r = (if exit_code r \<noteq> 0 \<and> strip err_raw \<noteq> [] then err_raw else [])
                \<and> test_results r = None \<and> verdict r = None
         else \<exists>e. rmtree en = RemovalRaised e \<and> fst (execute_code en req w) = Inl e"
proof -
  from single_shape [OF none ws res single_run_completes [OF rc logs], of w]
  show ?thesis by (cases "rmtree en") (simp_all add: removal_returns_def)
qed

theorem stderr_only_on_failure_witness:
  "\<exists>r config.
      test_cases single_request = None
      \<and> resolve_language (files single_request) (language single_request)
          = Inr (str ''python'', str ''main.py'', config)
      \<and> container_logs warning_env
          = Inr (str ''2'' @ [10], str ''SyntaxWarning: invalid escape'', Some 0)
      \<and> fst (execute_code warning_env single_request world0) = Inr r
      \<and> exit_code r = 0 \<and> stdout r = str ''2'' @ [10] \<and> stderr r = []"
proof -
  have n: "test_cases single_request = None \<or> test_cases single_request = Some []"
    by (simp add: single_request_def)
  have ws: "workspace_ready warning_env single_request" by (simp add: evaluation)
  have res: "resolve_language (files single_request) (language single_request)
     = Inr (str ''python'', str ''main.py'',
            \<lparr>image = str ''python:3.12-slim'', main_file = str ''main.py'', setup_command = None\<rparr>)"
    by (simp add: evaluation)
  have rc: "run_completes warning_env" by (simp add: evaluation)
  have rm: "removal_returns warning_env" by (simp add: evaluation)
  have logs: "container_logs warning_env
          = Inr (str ''2'' @ [10], str ''SyntaxWarning: invalid escape'', Some 0)"
    by (simp add: evaluation)
  from stderr_only_on_failure [OF n ws res rc logs, of world0] rm n res logs
  show ?thesis by (auto simp: single_request_def)
qed

section \<open>The workspace directory\<close>



section \<open>Language resolution\<close>













section \<open>A container that cannot be set up\<close>

text \<open>
  C6 fails in batch mode. When the daemon refuses to create the container, single-run
  mode returns a result with exit code \<open>-1\<close> and the error on stderr; batch mode has no
  handler, and the same failure leaves \<open>execute_code\<close> as an exception.
\<close>

theorem container_setup_failure_leaves_batch_mode:
  "containers_create no_image_env = Some (DockerException (str ''No such image''))
   \<and> fst (execute_code no_image_env single_request world0)
       = Inr \<lparr>stdout = [], stderr = str ''Docker error: No such image'', exit_code = - 1,
              duration_ms = 40, test_results = None, verdict = None\<rparr>
   \<and> fst (execute_code no_image_env echo_request world0)
       = Inl (DockerException (str ''No such image''))"
  by (simp add: evaluation)

end
